(* ===== verification/Prelude.thy ===== *)
theory Prelude
  imports Main "HOL-Library.AList"
begin

text \<open>
  Shared vocabulary of the development: the collections of rules the component
  theories add their unfolding and frame lemmas to, the type names of the model,
  and the generic facts on strings, association lists and options that several
  components use (separator-joined names, ASCII case folding, key lookup).
\<close>

section \<open>Rule collections\<close>

named_theorems handler_simps "unfolding rules of the HTTP handlers and their helpers"
named_theorems store_simps "evaluation rules of the document-store primitives"

section \<open>Names of the model's types\<close>

text \<open>Go's \<open>string\<close> is a byte string; an HTTP status is a small natural number.\<close>

type_synonym status_code = nat

section \<open>ASCII case folding\<close>

text \<open>
  Go's \<open>encoding/json\<close> matches object keys to struct tags case-insensitively
  after an exact match fails. On ASCII it folds upper case letters to lower case.
\<close>

definition lower_ascii :: "char \<Rightarrow> char" where
  "lower_ascii c =
     (if (65::nat) \<le> of_char c \<and> of_char c \<le> (90::nat) then char_of (of_char c + (32::nat)) else c)"

definition fold_ascii :: "string \<Rightarrow> string" where
  "fold_ascii s = map lower_ascii s"

section \<open>Lemmas\<close>

subsection \<open>Strings joined by a separator\<close>

text \<open>
  A string split at the first occurrence of a separator that the prefix does not
  contain: the prefix is determined.  This is what makes a name built as
  \<open>a @ sep # rest\<close> decodable when \<open>a\<close> is free of \<open>sep\<close>.
\<close>

lemma append_sep_inj:
  assumes "x \<notin> set a" and "x \<notin> set b" and "a @ x # r = b @ x # s"
  shows "a = b \<and> r = s"
  using assms
proof (induction a arbitrary: b)
  case Nil
  then show ?case by (cases b) auto
next
  case (Cons y a)
  then show ?case by (cases b) auto
qed

lemma count_list_sep_join [simp]:
  "count_list (a @ x # b) x = Suc (count_list a x + count_list b x)"
  by simp

lemma count_list_distinct: "distinct xs \<Longrightarrow> x \<in> set xs \<Longrightarrow> count_list xs x = 1"
  by (induction xs) auto

lemma fold_ascii_Nil [simp]: "fold_ascii [] = []"
  by (simp add: fold_ascii_def)

lemma fold_ascii_length [simp]: "length (fold_ascii s) = length s"
  by (simp add: fold_ascii_def)

subsection \<open>Association lists\<close>

text \<open>Lookup of the first entry with a key, as \<open>map_of\<close> does.\<close>

lemma map_of_update_same [simp]: "map_of (AList.update k v al) k = Some v"
  by (simp add: update_conv')

lemma map_of_update_other [simp]:
  "k' \<noteq> k \<Longrightarrow> map_of (AList.update k v al) k' = map_of al k'"
  by (simp add: update_conv')

lemma distinct_fold_update:
  "distinct (map fst al) \<Longrightarrow> distinct (map fst (foldl (\<lambda>m (k, v). AList.update k v m) al kvs))"
  by (induction kvs arbitrary: al) (auto simp: distinct_update)

lemma update_append_new:
  "k \<notin> set (map fst m) \<Longrightarrow> AList.update k v m = m @ [(k, v)]"
  by (induction m) auto

lemma set_update_subset: "set (AList.update k v m) \<subseteq> insert (k, v) (set m)"
  by (induction m) auto

lemma set_foldl_update:
  "set (foldl (\<lambda>m (k, v). AList.update k v m) acc kvs) \<subseteq> set acc \<union> set kvs"
proof (induction kvs arbitrary: acc)
  case Nil
  then show ?case by simp
next
  case (Cons kv kvs)
  obtain k v where kv: "kv = (k, v)" by fastforce
  have "set (AList.update k v acc) \<subseteq> insert (k, v) (set acc)"
    by (rule set_update_subset)
  with Cons.IH[of "AList.update k v acc"] kv show ?case by auto
qed

lemma foldl_update_fresh:
  "distinct (map fst kvs) \<Longrightarrow> set (map fst kvs) \<inter> set (map fst acc) = {} \<Longrightarrow>
   foldl (\<lambda>m (k, v). AList.update k v m) acc kvs = acc @ kvs"
proof (induction kvs arbitrary: acc)
  case Nil
  then show ?case by simp
next
  case (Cons kv kvs)
  obtain k v where kv: "kv = (k, v)" by fastforce
  with Cons.prems have "AList.update k v acc = acc @ [(k, v)]"
    by (auto intro: update_append_new)
  with Cons kv show ?case by auto
qed

end
