(* ===== verification/Json.thy ===== *)
theory Json
  imports Prelude
begin

text \<open>
  JSON values as the handlers see them.  \<open>json\<close> is a parsed JSON text (objects
  are member lists and may repeat a key); \<open>decode_any\<close> is what Go's
  \<open>encoding/json\<close> stores into an \<open>interface{}\<close>: arrays become
  \<open>[]interface{}\<close>, objects \<open>map[string]interface{}\<close> (the last duplicate
  wins).  The Go type assertions \<open>data.([]interface{})\<close> and
  \<open>data.(map[string]interface{})\<close> used in \<open>src/data/write_data.go\<close> are
  \<open>as_array\<close> and \<open>as_object\<close>.  \<open>decode_struct\<close> is Go's decoding of a
  JSON object into a struct whose fields are given by their tags and kinds, as
  \<open>json.NewDecoder(r.Body).Decode\<close> does in \<open>WriteData\<close> and \<open>Auth\<close>.
  Numbers are kept as integers: no handler inspects them.  Errors carry Go's
  \<open>UnmarshalTypeError\<close> fields (value kind, struct field, Go type) and print as
  Go prints them, with or without a field context.
\<close>

section \<open>Values\<close>

datatype json =
    JNull
  | JBool bool
  | JNum int
  | JStr string
  | JArr "json list"
  | JObj "(string \<times> json) list"

text \<open>A Go map built from a member list: each key set in turn, the last one wins.\<close>

definition obj_last :: "(string \<times> 'v) list \<Rightarrow> (string \<times> 'v) list" where
  "obj_last kvs = foldl (\<lambda>m (k, v). AList.update k v m) [] kvs"

fun decode_any :: "json \<Rightarrow> json" where
  "decode_any (JArr xs) = JArr (map decode_any xs)"
| "decode_any (JObj kvs) = JObj (obj_last (map (\<lambda>(k, v). (k, decode_any v)) kvs))"
| "decode_any j = j"

text \<open>A value that a Go \<open>interface{}\<close> can hold: objects have distinct keys.\<close>

fun wf_value :: "json \<Rightarrow> bool" where
  "wf_value (JArr xs) = list_all wf_value xs"
| "wf_value (JObj kvs) = (distinct (map fst kvs) \<and> list_all (\<lambda>(k, v). wf_value v) kvs)"
| "wf_value _ = True"

section \<open>Go type assertions\<close>

fun as_array :: "json \<Rightarrow> json list option" where
  "as_array (JArr xs) = Some xs"
| "as_array _ = None"

fun as_object :: "json \<Rightarrow> (string \<times> json) list option" where
  "as_object (JObj kvs) = Some kvs"
| "as_object _ = None"

section \<open>Decoding into a struct\<close>

datatype field_kind = KString | KBool | KStrings | KAny

datatype field_value = VString string | VBool bool | VStrings "string list" | VAny json

datatype json_error =
    EndOfInput
  | UnmarshalTypeError string string string

fun kind_name :: "json \<Rightarrow> string" where
  "kind_name JNull = ''null''"
| "kind_name (JBool _) = ''bool''"
| "kind_name (JNum _) = ''number''"
| "kind_name (JStr _) = ''string''"
| "kind_name (JArr _) = ''array''"
| "kind_name (JObj _) = ''object''"

fun json_error_msg :: "json_error \<Rightarrow> string" where
  "json_error_msg EndOfInput = ''EOF''"
| "json_error_msg (UnmarshalTypeError v f t) =
     (if f = [] then ''json: cannot unmarshal '' @ v @ '' into Go value of type '' @ t
      else ''json: cannot unmarshal '' @ v @ '' into Go struct field '' @ f @ '' of type '' @ t)"

fun is_jstr :: "json \<Rightarrow> bool" where
  "is_jstr (JStr _) = True"
| "is_jstr _ = False"

fun the_jstr :: "json \<Rightarrow> string" where
  "the_jstr (JStr s) = s"
| "the_jstr _ = []"

text \<open>
  One member's value stored into a field: \<open>Inl\<close> the kind of the offending value
  and the Go type it was to be stored in (for an element of a \<open>[]string\<close> that is
  \<open>string\<close>), \<open>Inr None\<close> when \<open>null\<close> leaves a string or bool field as it
  is.  A \<open>null\<close> element of an array stored into \<open>[]string\<close> leaves that element
  the zero value \<open>""\<close>, without an error.
\<close>

fun decode_field :: "field_kind \<Rightarrow> json \<Rightarrow> (string \<times> string) + field_value option" where
  "decode_field KString (JStr s) = Inr (Some (VString s))"
| "decode_field KString JNull = Inr None"
| "decode_field KString j = Inl (kind_name j, ''string'')"
| "decode_field KBool (JBool b) = Inr (Some (VBool b))"
| "decode_field KBool JNull = Inr None"
| "decode_field KBool j = Inl (kind_name j, ''bool'')"
| "decode_field KStrings JNull = Inr (Some (VStrings []))"
| "decode_field KStrings (JArr xs) =
     (case find (\<lambda>x. \<not> is_jstr x \<and> x \<noteq> JNull) xs of
        None \<Rightarrow> Inr (Some (VStrings (map the_jstr xs)))
      | Some x \<Rightarrow> Inl (kind_name x, ''string''))"
| "decode_field KStrings j = Inl (kind_name j, ''[]string'')"
| "decode_field KAny j = Inr (Some (VAny (decode_any j)))"

text \<open>The field a key selects: an exact tag match first, else a case-folded one.\<close>

definition field_for :: "(string \<times> field_kind) list \<Rightarrow> string \<Rightarrow> (string \<times> field_kind) option" where
  "field_for fs k =
     (case find (\<lambda>(t, _). t = k) fs of
        Some f \<Rightarrow> Some f
      | None \<Rightarrow> find (\<lambda>(t, _). fold_ascii t = fold_ascii k) fs)"

text \<open>
  The members in order; a type error is the result (Go keeps the first one and
  reports it after the object), later members of the same field overwrite earlier ones.
\<close>

fun decode_members ::
  "string \<Rightarrow> (string \<times> field_kind) list \<Rightarrow> (string \<times> json) list \<Rightarrow>
   (string \<times> field_value) list \<Rightarrow> json_error + (string \<times> field_value) list" where
  "decode_members sn fs [] acc = Inr acc"
| "decode_members sn fs ((k, v) # kvs) acc =
     (case field_for fs k of
        None \<Rightarrow> decode_members sn fs kvs acc
      | Some (t, kd) \<Rightarrow>
          (case decode_field kd v of
             Inl (vk, ty) \<Rightarrow> Inl (UnmarshalTypeError vk (sn @ ''.'' @ t) ty)
           | Inr None \<Rightarrow> decode_members sn fs kvs acc
           | Inr (Some fv) \<Rightarrow> decode_members sn fs kvs (AList.update t fv acc)))"

text \<open>
  The struct's type name qualified by its package, as \<open>reflect\<close> prints it
  (\<open>data.writeDataRequest\<close>); a field error names the struct without the package.
\<close>

definition go_struct_name :: "string \<Rightarrow> string" where
  "go_struct_name tn = rev (takeWhile (\<lambda>c. c \<noteq> CHR ''.'') (rev tn))"

text \<open>
  The whole body, decoded into the struct type \<open>tn\<close>: no JSON value is \<open>EOF\<close>;
  \<open>null\<close> leaves the struct at its zero value; any other non-object is a type
  error of the whole value, which has no field context (\<open>Go value of type\<close>).
\<close>

fun decode_struct ::
  "string \<Rightarrow> (string \<times> field_kind) list \<Rightarrow> json option \<Rightarrow>
   json_error + (string \<times> field_value) list" where
  "decode_struct tn fs None = Inl EndOfInput"
| "decode_struct tn fs (Some JNull) = Inr []"
| "decode_struct tn fs (Some (JObj kvs)) = decode_members (go_struct_name tn) fs kvs []"
| "decode_struct tn fs (Some j) = Inl (UnmarshalTypeError (kind_name j) [] tn)"

text \<open>Reading a decoded field, with Go's zero value when it was never set.\<close>

definition get_string :: "(string \<times> field_value) list \<Rightarrow> string \<Rightarrow> string" where
  "get_string a t = (case map_of a t of Some (VString s) \<Rightarrow> s | _ \<Rightarrow> [])"

definition get_bool :: "(string \<times> field_value) list \<Rightarrow> string \<Rightarrow> bool" where
  "get_bool a t = (case map_of a t of Some (VBool b) \<Rightarrow> b | _ \<Rightarrow> False)"

definition get_strings :: "(string \<times> field_value) list \<Rightarrow> string \<Rightarrow> string list" where
  "get_strings a t = (case map_of a t of Some (VStrings xs) \<Rightarrow> xs | _ \<Rightarrow> [])"

definition get_any :: "(string \<times> field_value) list \<Rightarrow> string \<Rightarrow> json" where
  "get_any a t = (case map_of a t of Some (VAny j) \<Rightarrow> j | _ \<Rightarrow> JNull)"

section \<open>Lemmas\<close>

subsection \<open>Decoded values are well formed\<close>

lemma obj_last_distinct: "distinct (map fst kvs) \<Longrightarrow> obj_last kvs = kvs"
  using foldl_update_fresh[of kvs "[]"] by (simp add: obj_last_def)

lemma distinct_obj_last: "distinct (map fst (obj_last kvs))"
  using distinct_fold_update[of "[]" kvs] by (simp add: obj_last_def)

lemma set_obj_last: "set (obj_last kvs) \<subseteq> set kvs"
  using set_foldl_update[of "[]" kvs] by (simp add: obj_last_def)

lemma wf_decode_any: "wf_value (decode_any j)"
proof (induction j rule: decode_any.induct)
  case (1 xs)
  then show ?case by (simp add: list_all_iff)
next
  case (2 kvs)
  have "\<forall>(k, v) \<in> set (obj_last (map (\<lambda>(k, v). (k, decode_any v)) kvs)). wf_value v"
    using set_obj_last 2 by fastforce
  then show ?case by (simp add: distinct_obj_last list_all_iff)
qed simp_all

lemma decode_any_wf: "wf_value j \<Longrightarrow> decode_any j = j"
proof (induction j rule: decode_any.induct)
  case (1 xs)
  then show ?case by (simp add: list_all_iff map_idI)
next
  case (2 kvs)
  then have "map (\<lambda>(k, v). (k, decode_any v)) kvs = kvs"
    by (auto simp: list_all_iff intro!: map_idI)
  with 2 show ?case by (simp add: obj_last_distinct)
qed simp_all

lemma decode_any_idem: "decode_any (decode_any j) = decode_any j"
  by (rule decode_any_wf[OF wf_decode_any])

end
