(* ===== verification/Store.thy ===== *)
theory Store
  imports Json
begin

text \<open>
  The document store behind the handlers (MongoDB, reached through the
  repository's \<open>utils\<close> package and the \<open>data\<close> package's \<open>recordExists\<close>).
  The store maps each collection name to its documents in insertion order; a
  document is a JSON object's member list.  \<open>online\<close> says whether the backend
  answers: when it does not, every write fails and every lookup finds nothing,
  because \<open>recordExists\<close> returns a bare \<open>bool\<close>.  The generated \<open>_id\<close> of an
  inserted document is not modelled: no handler reads it.
\<close>

section \<open>State and errors\<close>

type_synonym doc = "(string \<times> json) list"

record store =
  colls :: "string \<Rightarrow> doc list"
  online :: bool

datatype store_error = StoreUnavailable | NoDocuments

fun store_error_msg :: "store_error \<Rightarrow> string" where
  "store_error_msg StoreUnavailable = ''server selection error: context deadline exceeded''"
| "store_error_msg NoDocuments = ''mongo: no documents in result''"

section \<open>Primitives\<close>

text \<open>A document matches a filter when it has every filter member.\<close>

definition matches :: "doc \<Rightarrow> doc \<Rightarrow> bool" where
  "matches flt d = list_all (\<lambda>(k, v). map_of d k = Some v) flt"

text \<open>\<open>recordExists(class, id)\<close>: a document of the class's collection has that \<open>_id\<close>.\<close>

definition recordExists :: "string \<Rightarrow> string \<Rightarrow> store \<Rightarrow> bool" where
  "recordExists coll i s =
     (online s \<and> list_ex (matches [(''_id'', JStr i)]) (colls s coll))"

text \<open>\<open>utils.CreateMongoDbDoc(coll, doc)\<close>: insert one document.\<close>

definition CreateMongoDbDoc :: "string \<Rightarrow> doc \<Rightarrow> store \<Rightarrow> store_error + store" where
  "CreateMongoDbDoc coll d s =
     (if online s then Inr (s\<lparr>colls := (colls s)(coll := colls s coll @ [d])\<rparr>)
      else Inl StoreUnavailable)"

text \<open>\<open>utils.GetMongoDbDoc(coll, filter)\<close>: the first matching document.\<close>

definition GetMongoDbDoc :: "string \<Rightarrow> doc \<Rightarrow> store \<Rightarrow> store_error + doc" where
  "GetMongoDbDoc coll flt s =
     (if \<not> online s then Inl StoreUnavailable
      else case find (matches flt) (colls s coll) of
             None \<Rightarrow> Inl NoDocuments
           | Some d \<Rightarrow> Inr d)"

section \<open>Lemmas\<close>

lemma matches_Nil [simp]: "matches [] d"
  by (simp add: matches_def)

lemma CreateMongoDbDoc_online [store_simps]:
  "online s \<Longrightarrow> CreateMongoDbDoc coll d s = Inr (s\<lparr>colls := (colls s)(coll := colls s coll @ [d])\<rparr>)"
  by (simp add: CreateMongoDbDoc_def)

lemma CreateMongoDbDoc_offline [store_simps]:
  "\<not> online s \<Longrightarrow> CreateMongoDbDoc coll d s = Inl StoreUnavailable"
  by (simp add: CreateMongoDbDoc_def)

lemma CreateMongoDbDoc_frame:
  "CreateMongoDbDoc coll d s = Inr s' \<Longrightarrow> c \<noteq> coll \<Longrightarrow> colls s' c = colls s c"
  by (auto simp: CreateMongoDbDoc_def split: if_splits)

lemma CreateMongoDbDoc_online_kept:
  "CreateMongoDbDoc coll d s = Inr s' \<Longrightarrow> online s' = online s"
  by (auto simp: CreateMongoDbDoc_def split: if_splits)

lemma recordExists_offline [simp]: "\<not> online s \<Longrightarrow> \<not> recordExists coll i s"
  by (simp add: recordExists_def)

lemma GetMongoDbDoc_empty_filter:
  "online s \<Longrightarrow> colls s coll = d # ds \<Longrightarrow> GetMongoDbDoc coll [] s = Inr d"
  by (simp add: GetMongoDbDoc_def)

lemma GetMongoDbDoc_none:
  "\<not> online s \<or> colls s coll = [] \<Longrightarrow> \<exists>e. GetMongoDbDoc coll flt s = Inl e"
  by (auto simp: GetMongoDbDoc_def)

end
