(* ===== verification/Models.thy ===== *)
theory Models
  imports Prelude
begin

text \<open>
  The collection names of \<open>src/models/models.go\<close>, and the two collection names
  \<open>WriteData\<close> spells out as literals (\<open>"plugins"\<close> and \<open>"organization"\<close>).
  The lemmas say that every system name contains at most one underscore, which is
  what keeps them apart from the per-plugin collection names of \<open>Namespace\<close>.
\<close>

section \<open>Constants\<close>

definition UserCollectionName :: string where
  "UserCollectionName = ''users''"

definition WorkspaceUserCollectionName :: string where
  "WorkspaceUserCollectionName = ''workspace_users''"

definition PluginCollectionName :: string where
  "PluginCollectionName = ''plugins''"

definition PluginCollectionsCollectionName :: string where
  "PluginCollectionsCollectionName = ''plugin_collections''"

definition MarketplaceCollectionName :: string where
  "MarketplaceCollectionName = ''marketplaces''"

definition MessagesCollectionName :: string where
  "MessagesCollectionName = ''messages''"

definition InstalledPluginsCollectionName :: string where
  "InstalledPluginsCollectionName = ''installed_plugins''"

text \<open>The class name \<open>WriteData\<close> passes to \<open>recordExists\<close> for organizations.\<close>

definition OrganizationCollectionName :: string where
  "OrganizationCollectionName = ''organization''"

definition system_collections :: "string list" where
  "system_collections =
     [UserCollectionName, WorkspaceUserCollectionName, PluginCollectionName,
      PluginCollectionsCollectionName, MarketplaceCollectionName, MessagesCollectionName,
      InstalledPluginsCollectionName, OrganizationCollectionName]"

section \<open>Lemmas\<close>

lemmas collection_name_defs =
  UserCollectionName_def WorkspaceUserCollectionName_def PluginCollectionName_def
  PluginCollectionsCollectionName_def MarketplaceCollectionName_def
  MessagesCollectionName_def InstalledPluginsCollectionName_def
  OrganizationCollectionName_def

lemma system_collections_distinct: "distinct system_collections"
  by (simp add: system_collections_def collection_name_defs)

lemma system_collections_one_underscore:
  "c \<in> set system_collections \<Longrightarrow> count_list c (CHR ''_'') \<le> 1"
  by (auto simp: system_collections_def collection_name_defs)

lemma PluginCollectionsCollectionName_neq [simp]:
  "PluginCollectionsCollectionName \<noteq> PluginCollectionName"
  "PluginCollectionsCollectionName \<noteq> OrganizationCollectionName"
  "PluginCollectionName \<noteq> OrganizationCollectionName"
  by (simp_all add: collection_name_defs)

end
