(* ===== verification/Namespace.thy ===== *)
theory Namespace
  imports Store Models
begin

text \<open>
  The namespace registry: the physical collection a plugin writes to, and the
  registry records (collection \<open>plugin_collections\<close>) that link a (plugin,
  organization, collection) triple to it.  \<open>getPrefixedCollectionName\<close>,
  \<open>pluginHasCollection\<close> and \<open>createPluginCollectionRecord\<close> are helpers of the
  \<open>data\<close> package outside \<open>src/\<close>, modelled from the spec: the physical name is
  the three parts joined by underscores, a record holds the three key fields.
  \<open>register_if_absent\<close> is lines 42--45 of \<open>WriteData\<close>: check, then create,
  with the creation's error dropped.  \<open>registry\<close> abstracts the registry
  collection to its list of triples; the lemmas give the abstract effect of a
  registration (an insertion into a set of triples), its idempotence, the
  invariant that no triple is recorded twice, injectivity of the physical name
  when plugin and organization ids have no underscore, and its separation from
  every system collection name.  \<open>ns_abs\<close> is the abstract specification the
  layer implements: a document list per triple and the set of registered
  triples; \<open>WriteData\<close> proves a POST refines its operation \<open>ns_post\<close>.
\<close>

section \<open>Definitions\<close>

type_synonym triple = "string \<times> string \<times> string"

definition getPrefixedCollectionName :: "string \<Rightarrow> string \<Rightarrow> string \<Rightarrow> string" where
  "getPrefixedCollectionName pid oid cn = pid @ CHR ''_'' # oid @ CHR ''_'' # cn"

definition reg_doc :: "string \<Rightarrow> string \<Rightarrow> string \<Rightarrow> doc" where
  "reg_doc pid oid cn =
     [(''plugin_id'', JStr pid), (''organization_id'', JStr oid), (''collection_name'', JStr cn)]"

definition pluginHasCollection :: "string \<Rightarrow> string \<Rightarrow> string \<Rightarrow> store \<Rightarrow> bool" where
  "pluginHasCollection pid oid cn s =
     (online s \<and> list_ex (matches (reg_doc pid oid cn)) (colls s PluginCollectionsCollectionName))"

definition createPluginCollectionRecord ::
  "string \<Rightarrow> string \<Rightarrow> string \<Rightarrow> store \<Rightarrow> store_error + store" where
  "createPluginCollectionRecord pid oid cn s =
     CreateMongoDbDoc PluginCollectionsCollectionName (reg_doc pid oid cn) s"

definition register_if_absent :: "string \<Rightarrow> string \<Rightarrow> string \<Rightarrow> store \<Rightarrow> store" where
  "register_if_absent pid oid cn s =
     (if \<not> pluginHasCollection pid oid cn s
      then (case createPluginCollectionRecord pid oid cn s of Inl _ \<Rightarrow> s | Inr s' \<Rightarrow> s')
      else s)"

text \<open>The triple a registry document records, if it is one.\<close>

definition reg_triple :: "doc \<Rightarrow> triple option" where
  "reg_triple d =
     (case (map_of d ''plugin_id'', map_of d ''organization_id'', map_of d ''collection_name'') of
        (Some (JStr pid), Some (JStr oid), Some (JStr cn)) \<Rightarrow> Some (pid, oid, cn)
      | _ \<Rightarrow> None)"

definition registry :: "store \<Rightarrow> triple list" where
  "registry s = List.map_filter reg_triple (colls s PluginCollectionsCollectionName)"

section \<open>The namespaced store the layer promises\<close>

text \<open>
  The abstract specification of the namespacing layer: a map from (plugin,
  organization, collection) triples to document lists, with the set of registered
  triples.  \<open>ns_view\<close> reads it off the physical store through
  \<open>getPrefixedCollectionName\<close>, for the triples whose plugin and organization ids
  contain no underscore (\<open>ns_ok\<close>; for other ids physical names collide).
  \<open>ns_post\<close> is the abstract effect of creating one document.
\<close>

fun ns_ok :: "triple \<Rightarrow> bool" where
  "ns_ok (pid, oid, cn) \<longleftrightarrow> CHR ''_'' \<notin> set pid \<and> CHR ''_'' \<notin> set oid"

fun ns_coll :: "triple \<Rightarrow> string" where
  "ns_coll (pid, oid, cn) = getPrefixedCollectionName pid oid cn"

definition ns_view :: "store \<Rightarrow> triple \<Rightarrow> doc list" where
  "ns_view s t = (if ns_ok t then colls s (ns_coll t) else [])"

definition ns_abs :: "store \<Rightarrow> (triple \<Rightarrow> doc list) \<times> triple set" where
  "ns_abs s = (ns_view s, set (registry s))"

definition ns_post :: "triple \<Rightarrow> doc \<Rightarrow> (triple \<Rightarrow> doc list) \<times> triple set \<Rightarrow> (triple \<Rightarrow> doc list) \<times> triple set" where
  "ns_post t d A = ((fst A)(t := fst A t @ [d]), insert t (snd A))"

section \<open>Lemmas\<close>

subsection \<open>Registry records\<close>

lemma map_filter_append [simp]:
  "List.map_filter f (xs @ ys) = List.map_filter f xs @ List.map_filter f ys"
  by (induction xs) (simp_all split: option.splits)

lemma set_map_filter: "y \<in> set (List.map_filter f xs) \<longleftrightarrow> (\<exists>x \<in> set xs. f x = Some y)"
  by (induction xs) (auto split: option.splits)

lemma reg_triple_reg_doc [simp]: "reg_triple (reg_doc pid oid cn) = Some (pid, oid, cn)"
  by (simp add: reg_triple_def reg_doc_def)

lemma matches_reg_doc: "matches (reg_doc pid oid cn) d \<longleftrightarrow> reg_triple d = Some (pid, oid, cn)"
  by (auto simp: matches_def reg_doc_def reg_triple_def split: option.splits json.splits)

lemma pluginHasCollection_registry:
  "pluginHasCollection pid oid cn s \<longleftrightarrow> online s \<and> (pid, oid, cn) \<in> set (registry s)"
  by (auto simp: pluginHasCollection_def registry_def list_ex_iff matches_reg_doc set_map_filter)

lemma registry_create:
  "createPluginCollectionRecord pid oid cn s = Inr s' \<Longrightarrow> registry s' = registry s @ [(pid, oid, cn)]"
  by (auto simp: createPluginCollectionRecord_def CreateMongoDbDoc_def registry_def split: if_splits)

lemma register_if_absent_online [simp]: "online (register_if_absent pid oid cn s) = online s"
  by (auto simp: register_if_absent_def createPluginCollectionRecord_def
      dest: CreateMongoDbDoc_online_kept split: sum.splits)

lemma registry_register_if_absent:
  "registry (register_if_absent pid oid cn s) =
     (if online s \<and> (pid, oid, cn) \<notin> set (registry s) then registry s @ [(pid, oid, cn)]
      else registry s)"
  by (auto simp: register_if_absent_def pluginHasCollection_registry createPluginCollectionRecord_def
      CreateMongoDbDoc_def registry_def split: sum.splits)

lemma register_if_absent_frame:
  "c \<noteq> PluginCollectionsCollectionName \<Longrightarrow> colls (register_if_absent pid oid cn s) c = colls s c"
  by (auto simp: register_if_absent_def createPluginCollectionRecord_def
      dest: CreateMongoDbDoc_frame split: sum.splits)

lemma register_if_absent_present:
  "pluginHasCollection pid oid cn s \<Longrightarrow> register_if_absent pid oid cn s = s"
  by (simp add: register_if_absent_def)

lemma register_if_absent_offline:
  "\<not> online s \<Longrightarrow> register_if_absent pid oid cn s = s"
  by (simp add: register_if_absent_def createPluginCollectionRecord_def CreateMongoDbDoc_def
      pluginHasCollection_def)

lemma register_if_absent_has:
  "online s \<Longrightarrow> pluginHasCollection pid oid cn (register_if_absent pid oid cn s)"
  by (simp add: pluginHasCollection_registry registry_register_if_absent)

lemma register_if_absent_idem:
  "register_if_absent pid oid cn (register_if_absent pid oid cn s) = register_if_absent pid oid cn s"
proof (cases "online s")
  case True
  then show ?thesis by (simp add: register_if_absent_present register_if_absent_has)
next
  case False
  then show ?thesis by (simp add: register_if_absent_offline)
qed

lemma registry_distinct_register_if_absent:
  "distinct (registry s) \<Longrightarrow> distinct (registry (register_if_absent pid oid cn s))"
  by (simp add: registry_register_if_absent)

lemma set_registry_register_if_absent:
  "set (registry (register_if_absent pid oid cn s)) =
     (if online s then insert (pid, oid, cn) (set (registry s)) else set (registry s))"
  by (auto simp: registry_register_if_absent)

lemma registry_register_if_absent_iter:
  "online s \<Longrightarrow> (pid, oid, cn) \<notin> set (registry s) \<Longrightarrow>
   registry ((register_if_absent pid oid cn ^^ Suc n) s) = registry s @ [(pid, oid, cn)]"
proof (induction n)
  case 0
  then show ?case by (simp add: registry_register_if_absent)
next
  case (Suc n)
  then show ?case by (simp add: register_if_absent_idem)
qed

lemma register_if_absent_iter_present:
  "pluginHasCollection pid oid cn s \<Longrightarrow> (register_if_absent pid oid cn ^^ n) s = s"
  by (induction n) (simp_all add: register_if_absent_present)

text \<open>
  C8: registering a triple any number \<open>n \<ge> 1\<close> of times, as repeated requests
  for it do, leaves exactly one registry record for it, whether or not it was
  registered before.
\<close>

theorem register_if_absent_once:
  assumes "online s" and "distinct (registry s)" and "1 \<le> n"
  shows "count_list (registry ((register_if_absent pid oid cn ^^ n) s)) (pid, oid, cn) = 1"
proof (cases "(pid, oid, cn) \<in> set (registry s)")
  case True
  with assms(1) have "(register_if_absent pid oid cn ^^ n) s = s"
    by (simp add: register_if_absent_iter_present pluginHasCollection_registry)
  with True assms(2) show ?thesis by (simp add: count_list_distinct)
next
  case False
  obtain k where n: "n = Suc k" using assms(3) by (cases n) auto
  have "registry ((register_if_absent pid oid cn ^^ n) s) = registry s @ [(pid, oid, cn)]"
    using registry_register_if_absent_iter[OF assms(1) False, of k] n by simp
  with False show ?thesis by simp
qed

theorem register_if_absent_once_witness:
  "count_list (registry ((register_if_absent ''p1'' ''o1'' ''notes'' ^^ 3)
     \<lparr>colls = (\<lambda>_. []), online = True\<rparr>)) (''p1'', ''o1'', ''notes'') = 1"
proof -
  have o: "online \<lparr>colls = (\<lambda>_. []), online = True\<rparr>" by simp
  have d: "distinct (registry \<lparr>colls = (\<lambda>_. []), online = True\<rparr>)" by (simp add: registry_def)
  have n: "1 \<le> (3::nat)" by simp
  from register_if_absent_once[OF o d n] show ?thesis .
qed

subsection \<open>Physical names\<close>

lemma getPrefixedCollectionName_inj:
  assumes "CHR ''_'' \<notin> set pid" and "CHR ''_'' \<notin> set pid'"
    and "CHR ''_'' \<notin> set oid" and "CHR ''_'' \<notin> set oid'"
    and "getPrefixedCollectionName pid oid cn = getPrefixedCollectionName pid' oid' cn'"
  shows "(pid, oid, cn) = (pid', oid', cn')"
proof -
  from assms(5) have "pid @ CHR ''_'' # (oid @ CHR ''_'' # cn) = pid' @ CHR ''_'' # (oid' @ CHR ''_'' # cn')"
    by (simp add: getPrefixedCollectionName_def)
  with assms(1,2) have p: "pid = pid'" and r: "oid @ CHR ''_'' # cn = oid' @ CHR ''_'' # cn'"
    by (blast dest: append_sep_inj)+
  from r assms(3,4) have "oid = oid' \<and> cn = cn'" by (blast dest: append_sep_inj)
  with p show ?thesis by simp
qed

lemma getPrefixedCollectionName_underscores:
  "2 \<le> count_list (getPrefixedCollectionName pid oid cn) (CHR ''_'')"
  by (simp add: getPrefixedCollectionName_def)

lemma getPrefixedCollectionName_not_system:
  "getPrefixedCollectionName pid oid cn \<notin> set system_collections"
proof
  assume "getPrefixedCollectionName pid oid cn \<in> set system_collections"
  then have "count_list (getPrefixedCollectionName pid oid cn) (CHR ''_'') \<le> 1"
    by (rule system_collections_one_underscore)
  with getPrefixedCollectionName_underscores[of pid oid cn] show False by linarith
qed

lemma getPrefixedCollectionName_neq [simp]:
  "getPrefixedCollectionName pid oid cn \<noteq> PluginCollectionsCollectionName"
  "getPrefixedCollectionName pid oid cn \<noteq> PluginCollectionName"
  "getPrefixedCollectionName pid oid cn \<noteq> OrganizationCollectionName"
  using getPrefixedCollectionName_not_system by (auto simp: system_collections_def)


lemma createPluginCollectionRecord_online:
  "online s \<Longrightarrow> createPluginCollectionRecord pid oid cn s =
     Inr (s\<lparr>colls := (colls s)(PluginCollectionsCollectionName :=
                colls s PluginCollectionsCollectionName @ [reg_doc pid oid cn])\<rparr>)"
  by (simp add: createPluginCollectionRecord_def CreateMongoDbDoc_def)

lemma registry_append_docs [simp]:
  "registry (s\<lparr>colls := (colls s)(PluginCollectionsCollectionName :=
                colls s PluginCollectionsCollectionName @ ds)\<rparr>) =
   registry s @ List.map_filter reg_triple ds"
  by (simp add: registry_def map_filter_append)

lemma recordExists_reg_update [simp]:
  "c \<noteq> PluginCollectionsCollectionName \<Longrightarrow>
   recordExists c i (s\<lparr>colls := (colls s)(PluginCollectionsCollectionName := x)\<rparr>) = recordExists c i s"
  by (simp add: recordExists_def)

subsection \<open>The abstract view\<close>

lemma ns_coll_inj:
  assumes "ns_ok t" and "ns_ok t'" and "ns_coll t = ns_coll t'"
  shows "t = t'"
proof -
  obtain pid oid cn pid' oid' cn' where t: "t = (pid, oid, cn)" and t': "t' = (pid', oid', cn')"
    by (cases t; cases t')
  from assms show ?thesis
    unfolding t t' by (intro getPrefixedCollectionName_inj) simp_all
qed

lemma ns_coll_not_registry [simp]: "ns_coll t \<noteq> PluginCollectionsCollectionName"
  using getPrefixedCollectionName_not_system[of "fst t" "fst (snd t)" "snd (snd t)"]
  by (cases t) (auto simp: system_collections_def)

lemma registry_colls_update [simp]:
  "c \<noteq> PluginCollectionsCollectionName \<Longrightarrow> registry (s\<lparr>colls := (colls s)(c := x)\<rparr>) = registry s"
  by (simp add: registry_def)

end
