(* ===== verification/Http.thy ===== *)
theory Http
  imports Json "HOL-Library.Sublist"
begin

text \<open>
  The part of Go's \<open>net/http\<close> \<open>ResponseWriter\<close> the handlers rely on, and the
  response helpers of the repository's \<open>utils\<close> package.  A response records the
  status line (\<open>None\<close> until the first \<open>WriteHeader\<close> or \<open>Write\<close>), the header
  map, the header as it was sent with the status line, and the body as the list of
  chunks written.  A second \<open>WriteHeader\<close> is superfluous and ignored; \<open>Write\<close>
  sends status 200 first if no status was sent; a handler that writes nothing
  answers 200 with an empty body.  \<open>run_wops\<close> replays a sequence of writer calls;
  its lemmas say that the first status-setting call fixes the status and that the
  body is the writes in order.  \<open>ServeFile\<close> models \<open>http.ServeFile\<close> for a
  regular file.
\<close>

section \<open>The response writer\<close>

datatype chunk = JsonChunk json | TextChunk string

record response =
  resp_status :: "status_code option"
  resp_header :: "(string \<times> string) list"
  sent_header :: "(string \<times> string) list"
  resp_body :: "chunk list"

definition empty_response :: response where
  "empty_response = \<lparr>resp_status = None, resp_header = [], sent_header = [], resp_body = []\<rparr>"

definition WriteHeader :: "status_code \<Rightarrow> response \<Rightarrow> response" where
  "WriteHeader code w =
     (if resp_status w = None
      then w\<lparr>resp_status := Some code, sent_header := resp_header w\<rparr>
      else w)"

definition Write :: "chunk \<Rightarrow> response \<Rightarrow> response" where
  "Write c w = (let w' = WriteHeader 200 w in w'\<lparr>resp_body := resp_body w' @ [c]\<rparr>)"

definition set_header :: "string \<Rightarrow> string \<Rightarrow> response \<Rightarrow> response" where
  "set_header k v w = w\<lparr>resp_header := AList.update k v (resp_header w)\<rparr>"

text \<open>The status the client receives.\<close>

definition final_status :: "response \<Rightarrow> status_code" where
  "final_status w = (case resp_status w of None \<Rightarrow> 200 | Some c \<Rightarrow> c)"

text \<open>\<open>json.NewEncoder(w).Encode(v)\<close>: one JSON value written.\<close>

definition encode_json :: "json \<Rightarrow> response \<Rightarrow> response" where
  "encode_json j w = Write (JsonChunk j) w"

text \<open>\<open>http.Error(w, msg, code)\<close> of \<open>net/http\<close>.\<close>

definition http_Error :: "string \<Rightarrow> status_code \<Rightarrow> response \<Rightarrow> response" where
  "http_Error msg code w =
     Write (TextChunk (msg @ [CHR 0x0A]))
       (WriteHeader code
         (set_header ''X-Content-Type-Options'' ''nosniff''
           (set_header ''Content-Type'' ''text/plain; charset=utf-8'' w)))"

text \<open>
  \<open>r.Header.Get(key)\<close>: the first value of the header whose name matches the key
  case-insensitively (Go canonicalises header names), the empty string if none.
\<close>

definition header_get :: "string \<Rightarrow> (string \<times> string) list \<Rightarrow> string" where
  "header_get k hs =
     (case find (\<lambda>(k', _). fold_ascii k' = fold_ascii k) hs of Some (_, v) \<Rightarrow> v | None \<Rightarrow> [])"

section \<open>Serving a file\<close>

text \<open>
  \<open>http.ServeFile(w, r, name)\<close> of \<open>net/http\<close>, for a regular file: a request
  path with a \<open>..\<close> element (\<open>containsDotDot\<close>, which splits the path at
  slashes and backslashes with \<open>strings.FieldsFunc\<close>) is refused with 400, a path
  ending in \<open>/index.html\<close> is redirected to \<open>./\<close>, a missing file is 404, and
  otherwise the content is sent with status 200 and the content type of the
  name's extension (\<open>mime_by_ext\<close>, for the one extension the source serves;
  for others Go sniffs the content, which is not modelled).  The file system is
  a map from names to contents.
\<close>

fun fields_slash :: "string \<Rightarrow> string \<Rightarrow> string list" where
  "fields_slash cur [] = (if cur = [] then [] else [rev cur])"
| "fields_slash cur (c # cs) =
     (if c = CHR ''/'' \<or> c = CHR 0x5C
      then (if cur = [] then [] else [rev cur]) @ fields_slash [] cs
      else fields_slash (c # cur) cs)"

definition containsDotDot :: "string \<Rightarrow> bool" where
  "containsDotDot v = (''..'' \<in> set (fields_slash [] v))"

definition mime_by_ext :: "string \<Rightarrow> string option" where
  "mime_by_ext name = (if suffix ''.html'' name then Some ''text/html; charset=utf-8'' else None)"

definition ServeFile :: "string \<Rightarrow> (string \<Rightarrow> string option) \<Rightarrow> string \<Rightarrow> response \<Rightarrow> response" where
  "ServeFile urlPath fs name w =
     (if containsDotDot urlPath then http_Error ''invalid URL path'' 400 w
      else if suffix ''/index.html'' urlPath then WriteHeader 301 (set_header ''Location'' ''./'' w)
      else case fs name of
        None \<Rightarrow> http_Error ''404 page not found'' 404 w
      | Some content \<Rightarrow>
          Write (TextChunk content)
            (WriteHeader 200
              (case mime_by_ext name of Some t \<Rightarrow> set_header ''Content-Type'' t w | None \<Rightarrow> w)))"

section \<open>Response helpers of the utils package\<close>

text \<open>\<open>utils.GetError(err, code, w)\<close>: a JSON error envelope with the given status.\<close>

definition GetError :: "string \<Rightarrow> status_code \<Rightarrow> response \<Rightarrow> response" where
  "GetError msg code w =
     encode_json (JObj [(''status'', JNum (int code)), (''message'', JStr msg)])
       (WriteHeader code (set_header ''Content-Type'' ''application/json'' w))"

text \<open>\<open>utils.GetSuccess(msg, data, w)\<close>: a JSON success envelope with status 200.\<close>

definition GetSuccess :: "string \<Rightarrow> json \<Rightarrow> response \<Rightarrow> response" where
  "GetSuccess msg data w =
     encode_json (JObj [(''status'', JNum 200), (''message'', JStr msg), (''data'', data)])
       (WriteHeader 200 (set_header ''Content-Type'' ''application/json'' w))"

section \<open>Sequences of writer calls\<close>

datatype wop = OpWriteHeader status_code | OpWrite chunk | OpSetHeader string string

fun apply_wop :: "response \<Rightarrow> wop \<Rightarrow> response" where
  "apply_wop w (OpWriteHeader c) = WriteHeader c w"
| "apply_wop w (OpWrite c) = Write c w"
| "apply_wop w (OpSetHeader k v) = set_header k v w"

definition run_wops :: "response \<Rightarrow> wop list \<Rightarrow> response" where
  "run_wops w ops = foldl apply_wop w ops"

text \<open>The abstract answer: the status of the first call that sends one, and the writes.\<close>

fun first_status :: "wop list \<Rightarrow> status_code" where
  "first_status [] = 200"
| "first_status (OpWriteHeader c # _) = c"
| "first_status (OpWrite _ # _) = 200"
| "first_status (OpSetHeader _ _ # ops) = first_status ops"

fun written :: "wop list \<Rightarrow> chunk list" where
  "written [] = []"
| "written (OpWrite c # ops) = c # written ops"
| "written (_ # ops) = written ops"

section \<open>Lemmas\<close>

lemma WriteHeader_sent [simp]: "resp_status w = Some c \<Longrightarrow> WriteHeader c' w = w"
  by (simp add: WriteHeader_def)

lemma WriteHeader_fresh [simp]:
  "resp_status w = None \<Longrightarrow> resp_status (WriteHeader c w) = Some c"
  by (simp add: WriteHeader_def)

lemma resp_status_WriteHeader_Some:
  "resp_status w = Some c \<Longrightarrow> resp_status (WriteHeader c' w) = Some c"
  by simp

lemma resp_status_Write:
  "resp_status (Write ch w) = Some (final_status w)"
  by (cases "resp_status w") (simp_all add: Write_def WriteHeader_def final_status_def)

lemma resp_body_Write [simp]: "resp_body (Write ch w) = resp_body w @ [ch]"
  by (simp add: Write_def WriteHeader_def)

lemma resp_body_WriteHeader [simp]: "resp_body (WriteHeader c w) = resp_body w"
  by (simp add: WriteHeader_def)

lemma resp_status_set_header [simp]: "resp_status (set_header k v w) = resp_status w"
  by (simp add: set_header_def)

lemma resp_body_set_header [simp]: "resp_body (set_header k v w) = resp_body w"
  by (simp add: set_header_def)

lemma final_status_WriteHeader_empty [simp]:
  "final_status (WriteHeader c empty_response) = c"
  by (simp add: WriteHeader_def empty_response_def final_status_def)

lemma final_status_sent:
  "resp_status w = Some c \<Longrightarrow> final_status w = c"
  by (simp add: final_status_def)

lemma apply_wop_keeps_status:
  "resp_status w = Some c \<Longrightarrow> resp_status (apply_wop w op) = Some c"
  by (cases op) (simp_all add: resp_status_Write final_status_sent)

lemma run_wops_keeps_status:
  "resp_status w = Some c \<Longrightarrow> resp_status (run_wops w ops) = Some c"
  unfolding run_wops_def
  by (induction ops arbitrary: w) (simp_all add: apply_wop_keeps_status)

lemma run_wops_body: "resp_body (run_wops w ops) = resp_body w @ written ops"
  unfolding run_wops_def
proof (induction ops arbitrary: w)
  case Nil
  then show ?case by simp
next
  case (Cons op ops)
  then show ?case by (cases op) simp_all
qed

lemma run_wops_status:
  "resp_status w = None \<Longrightarrow> final_status (run_wops w ops) = first_status ops"
proof (induction ops arbitrary: w)
  case Nil
  then show ?case by (simp add: run_wops_def final_status_def)
next
  case (Cons op ops)
  show ?case
  proof (cases op)
    case (OpWriteHeader c)
    with Cons.prems have "resp_status (apply_wop w op) = Some c" by simp
    then have "resp_status (run_wops (apply_wop w op) ops) = Some c"
      by (rule run_wops_keeps_status)
    with OpWriteHeader show ?thesis by (simp add: run_wops_def final_status_def)
  next
    case (OpWrite ch)
    with Cons.prems have "resp_status (apply_wop w op) = Some 200"
      by (simp add: resp_status_Write final_status_def)
    then have "resp_status (run_wops (apply_wop w op) ops) = Some 200"
      by (rule run_wops_keeps_status)
    with OpWrite show ?thesis by (simp add: run_wops_def final_status_def)
  next
    case (OpSetHeader k v)
    with Cons.prems Cons.IH[of "apply_wop w op"] show ?thesis
      by (simp add: run_wops_def)
  qed
qed

lemma run_wops_append: "run_wops (run_wops w a) b = run_wops w (a @ b)"
  by (simp add: run_wops_def)

lemma GetError_status [simp]: "resp_status w = None \<Longrightarrow> final_status (GetError m c w) = c"
  by (simp add: GetError_def encode_json_def resp_status_Write final_status_def)

lemma GetError_body [simp]:
  "resp_body (GetError m c w) = resp_body w @ [JsonChunk (JObj [(''status'', JNum (int c)), (''message'', JStr m)])]"
  by (simp add: GetError_def encode_json_def)

lemma GetSuccess_body [simp]:
  "resp_body (GetSuccess m d w) =
     resp_body w @ [JsonChunk (JObj [(''status'', JNum 200), (''message'', JStr m), (''data'', d)])]"
  by (simp add: GetSuccess_def encode_json_def)

lemma GetSuccess_status_fresh [simp]:
  "resp_status w = None \<Longrightarrow> final_status (GetSuccess m d w) = 200"
  by (simp add: GetSuccess_def encode_json_def resp_status_Write final_status_def)

lemma GetSuccess_status_sent [simp]:
  "resp_status w = Some c \<Longrightarrow> final_status (GetSuccess m d w) = c"
  by (simp add: GetSuccess_def encode_json_def resp_status_Write final_status_def)

lemma empty_response_status [simp]: "resp_status empty_response = None"
  by (simp add: empty_response_def)

lemma empty_response_body [simp]: "resp_body empty_response = []"
  by (simp add: empty_response_def)

end
