(* ===== verification/WriteData.thy ===== *)
theory WriteData
  imports Namespace Http
begin

text \<open>
  The write-data handler of \<open>src/data/write_data.go\<close>.  A request is the record
  \<open>writeDataRequest\<close>, decoded from the body by \<open>decode_request\<close> (the struct's
  JSON tags).  Each Go function is one definition with the same name; a handler
  takes the store and the response writer and returns both.  \<open>WriteData\<close> is
  the whole entry point: decoding (422), the plugin and organization existence
  checks (404), the namespace registration of lines 42--45, and \<open>dispatch\<close>, the
  \<open>switch r.Method\<close> of lines 47--54.  The stubs of the source are kept as they
  are: \<open>insertMany\<close>, \<open>updateOne\<close> and \<open>updateMany\<close> check the payload's
  shape and touch no store; \<open>handleDelete\<close> prints \<open>hello world\<close>.  Besides
  the behaviour of each branch, the lemmas bound the answers (status codes named
  by the source, at most one value written) and relate a POST to the abstract
  namespaced store of \<open>Namespace\<close>.
\<close>

section \<open>The request\<close>

record writeDataRequest =
  PluginID :: string
  CollectionName :: string
  OrganizationID :: string
  BulkWrite :: bool
  ObjectID :: string
  ObjectIDs :: "string list"
  Payload :: json

text \<open>The JSON tags and Go types of the struct's fields.\<close>

definition writeDataRequest_fields :: "(string \<times> field_kind) list" where
  "writeDataRequest_fields =
     [(''plugin_id'', KString), (''collection_name'', KString), (''organization_id'', KString),
      (''bulk_write'', KBool), (''object_id'', KString), (''object_ids'', KStrings),
      (''payload'', KAny)]"

definition decode_request :: "json option \<Rightarrow> json_error + writeDataRequest" where
  "decode_request body =
     (case decode_struct ''data.writeDataRequest'' writeDataRequest_fields body of
        Inl e \<Rightarrow> Inl e
      | Inr a \<Rightarrow> Inr \<lparr>PluginID = get_string a ''plugin_id'',
                     CollectionName = get_string a ''collection_name'',
                     OrganizationID = get_string a ''organization_id'',
                     BulkWrite = get_bool a ''bulk_write'',
                     ObjectID = get_string a ''object_id'',
                     ObjectIDs = get_strings a ''object_ids'',
                     Payload = get_any a ''payload''\<rparr>)"

section \<open>Store helpers\<close>

datatype write_error = TypeAssertion | StoreFailure store_error

fun write_error_msg :: "write_error \<Rightarrow> string" where
  "write_error_msg TypeAssertion = ''type assertion error''"
| "write_error_msg (StoreFailure e) = store_error_msg e"

definition prefixCollectionName :: "writeDataRequest \<Rightarrow> string" where
  "prefixCollectionName wdr =
     getPrefixedCollectionName (PluginID wdr) (OrganizationID wdr) (CollectionName wdr)"

definition insertMany :: "string \<Rightarrow> json \<Rightarrow> write_error + nat" where
  "insertMany collName data =
     (case as_array data of None \<Rightarrow> Inl TypeAssertion | Some _ \<Rightarrow> Inr 0)"

definition insertOne :: "string \<Rightarrow> json \<Rightarrow> store \<Rightarrow> write_error + store" where
  "insertOne collName data s =
     (case as_object data of
        None \<Rightarrow> Inl TypeAssertion
      | Some d \<Rightarrow>
          (case CreateMongoDbDoc collName d s of
             Inl e \<Rightarrow> Inl (StoreFailure e)
           | Inr s' \<Rightarrow> Inr s'))"

definition updateOne :: "string \<Rightarrow> string \<Rightarrow> json \<Rightarrow> write_error option" where
  "updateOne collName i upd =
     (case as_object upd of None \<Rightarrow> Some TypeAssertion | Some _ \<Rightarrow> None)"

definition updateMany :: "string \<Rightarrow> string list \<Rightarrow> json \<Rightarrow> write_error + nat" where
  "updateMany collName ids upd =
     (case as_array upd of None \<Rightarrow> Inl TypeAssertion | Some _ \<Rightarrow> Inr 0)"

definition deleteOne :: "string \<Rightarrow> string \<Rightarrow> write_error option" where
  "deleteOne collName i = None"

text \<open>In the source both parameters of \<open>deleteMany\<close> are \<open>[]string\<close>.\<close>

definition deleteMany :: "string list \<Rightarrow> string list \<Rightarrow> write_error + nat" where
  "deleteMany collName ids = Inr 0"

section \<open>Handlers\<close>

definition count_json :: "string \<Rightarrow> nat \<Rightarrow> json" where
  "count_json k n = JObj [(k, JNum (int n))]"

definition handlePost :: "writeDataRequest \<Rightarrow> store \<Rightarrow> response \<Rightarrow> store \<times> response" where
  "handlePost wdr s w =
     (if BulkWrite wdr then
        (case insertMany (prefixCollectionName wdr) (Payload wdr) of
           Inl e \<Rightarrow> (s, GetError (''an error occured: '' @ write_error_msg e) 500 w)
         | Inr n \<Rightarrow> (s, GetSuccess ''success'' (count_json ''insert_count'' n) (WriteHeader 201 w)))
      else
        (case insertOne (prefixCollectionName wdr) (Payload wdr) s of
           Inl e \<Rightarrow> (s, GetError (''an error occured: '' @ write_error_msg e) 500 w)
         | Inr s' \<Rightarrow> (s', GetSuccess ''success'' (count_json ''insert_count'' 1) (WriteHeader 201 w))))"

definition handlePut :: "writeDataRequest \<Rightarrow> store \<Rightarrow> response \<Rightarrow> store \<times> response" where
  "handlePut wdr s w =
     (if CollectionName wdr = [] \<or> PluginID wdr = [] then
        (s, GetError ''invalid data destination'' 400 w)
      else if BulkWrite wdr then
        (case updateMany (prefixCollectionName wdr) (ObjectIDs wdr) (Payload wdr) of
           Inl e \<Rightarrow> (s, GetError (''an error occured: '' @ write_error_msg e) 500 w)
         | Inr n \<Rightarrow> (s, GetSuccess ''success'' (count_json ''update_count'' n) w))
      else
        (case updateOne (prefixCollectionName wdr) (ObjectID wdr) (Payload wdr) of
           Some e \<Rightarrow> (s, GetError (''an error occured: '' @ write_error_msg e) 500 w)
         | None \<Rightarrow> (s, GetSuccess ''success'' (count_json ''update_count'' 1) w)))"

definition handleDelete :: "writeDataRequest \<Rightarrow> store \<Rightarrow> response \<Rightarrow> store \<times> response" where
  "handleDelete wdr s w = (s, Write (TextChunk ''hello world'') w)"

text \<open>The \<open>switch r.Method\<close>: any other method writes nothing.\<close>

definition dispatch :: "string \<Rightarrow> writeDataRequest \<Rightarrow> store \<Rightarrow> response \<Rightarrow> store \<times> response" where
  "dispatch method wdr s w =
     (if method = ''POST'' then handlePost wdr s w
      else if method = ''PUT'' then handlePut wdr s w
      else if method = ''DELETE'' then handleDelete wdr s w
      else (s, w))"

definition WriteData :: "string \<Rightarrow> json option \<Rightarrow> store \<Rightarrow> store \<times> response" where
  "WriteData method body s =
     (case decode_request body of
        Inl e \<Rightarrow> (s, GetError (''error processing request: '' @ json_error_msg e) 422 empty_response)
      | Inr wdr \<Rightarrow>
          if \<not> recordExists ''plugins'' (PluginID wdr) s then
            (s, GetError ''plugin with this id does not exist'' 404 empty_response)
          else if \<not> recordExists ''organization'' (OrganizationID wdr) s then
            (s, GetError ''organization with this id does not exist'' 404 empty_response)
          else
            dispatch method wdr
              (register_if_absent (PluginID wdr) (OrganizationID wdr) (CollectionName wdr) s)
              empty_response)"

section \<open>The registry invariant\<close>

text \<open>Every registry record names a plugin and an organization that exist.\<close>

definition registry_sound :: "store \<Rightarrow> bool" where
  "registry_sound s \<longleftrightarrow>
     (\<forall>(pid, oid, cn) \<in> set (registry s).
        recordExists ''plugins'' pid s \<and> recordExists ''organization'' oid s)"

text \<open>The triple a request names.\<close>

definition req_triple :: "writeDataRequest \<Rightarrow> triple" where
  "req_triple wdr = (PluginID wdr, OrganizationID wdr, CollectionName wdr)"

text \<open>The status codes the handler's source names.\<close>

definition answer_codes :: "status_code list" where
  "answer_codes = [200, 201, 400, 404, 422, 500]"

section \<open>Example inputs\<close>

text \<open>
  The spec's scenario: plugin \<open>p1\<close> and organization \<open>o1\<close> exist, the
  collection \<open>notes\<close> is not registered yet.
\<close>

definition ex_store :: store where
  "ex_store =
     \<lparr>colls = (\<lambda>c. if c = ''plugins'' then [[(''_id'', JStr ''p1'')]]
                   else if c = ''organization'' then [[(''_id'', JStr ''o1'')]] else []),
      online = True\<rparr>"

definition ex_body :: "bool \<Rightarrow> string \<Rightarrow> json \<Rightarrow> json option" where
  "ex_body bulk cn p =
     Some (JObj [(''plugin_id'', JStr ''p1''), (''organization_id'', JStr ''o1''),
                 (''collection_name'', JStr cn), (''bulk_write'', JBool bulk), (''payload'', p)])"

definition ex_request :: "bool \<Rightarrow> string \<Rightarrow> json \<Rightarrow> writeDataRequest" where
  "ex_request bulk cn p =
     \<lparr>PluginID = ''p1'', CollectionName = cn, OrganizationID = ''o1'', BulkWrite = bulk,
      ObjectID = [], ObjectIDs = [], Payload = p\<rparr>"

definition ex_note :: json where
  "ex_note = JObj [(''text'', JStr ''hi'')]"

section \<open>Lemmas\<close>

subsection \<open>Evaluation rules\<close>

lemma go_struct_name_writeDataRequest [simp]: "go_struct_name ''data.writeDataRequest'' = ''writeDataRequest''"
  by (simp add: go_struct_name_def)

lemmas decode_eval [handler_simps] =
  decode_request_def writeDataRequest_fields_def field_for_def get_string_def get_bool_def
  get_strings_def get_any_def obj_last_def

text \<open>
  Go's decoder on boundary inputs: a \<open>null\<close> element of \<open>object_ids\<close> becomes
  \<open>""\<close>, a \<open>bool\<close> element is a type error naming the element type \<open>string\<close>, and a
  body that is not an object is an error of the whole value.
\<close>

lemma decode_request_boundary:
  "ObjectIDs (projr (decode_request (Some (JObj [(''object_ids'', JArr [JNull, JStr ''a''])])))) = [[], ''a'']"
  "decode_request (Some (JObj [(''object_ids'', JArr [JBool True])])) =
     Inl (UnmarshalTypeError ''bool'' ''writeDataRequest.object_ids'' ''string'')"
  "json_error_msg (projl (decode_request (Some (JStr ''x'')))) =
     ''json: cannot unmarshal string into Go value of type data.writeDataRequest''"
  by (simp_all add: decode_eval)

lemma ex_decode:
  "wf_value p \<Longrightarrow> decode_request (ex_body b cn p) = Inr (ex_request b cn p)"
  by (simp add: ex_body_def ex_request_def decode_eval decode_any_wf)

lemma ex_note_wf [simp]: "wf_value ex_note"
  by (simp add: ex_note_def)

lemma ex_request_sel [simp]:
  "PluginID (ex_request b cn p) = ''p1''" "OrganizationID (ex_request b cn p) = ''o1''"
  "CollectionName (ex_request b cn p) = cn" "BulkWrite (ex_request b cn p) = b"
  "Payload (ex_request b cn p) = p"
  by (simp_all add: ex_request_def)

lemma ex_store_exists [simp]:
  "recordExists ''plugins'' ''p1'' ex_store" "recordExists ''organization'' ''o1'' ex_store"
  by (simp_all add: ex_store_def recordExists_def matches_def)

lemma ex_exists_req:
  "recordExists ''plugins'' (PluginID (ex_request b cn p)) ex_store"
  "recordExists ''organization'' (OrganizationID (ex_request b cn p)) ex_store"
  by simp_all

lemma ex_store_notes [simp]: "colls ex_store ''p1_o1_notes'' = []"
  by (simp add: ex_store_def)

lemma ex_store_online [simp]: "online ex_store"
  by (simp add: ex_store_def)

lemma ex_store_registry [simp]: "registry ex_store = []"
  by (simp add: ex_store_def registry_def collection_name_defs)

subsection \<open>Frame lemmas of the helpers and handlers\<close>

lemma prefixCollectionName_neq [simp]:
  "prefixCollectionName wdr \<noteq> PluginCollectionsCollectionName"
  "prefixCollectionName wdr \<noteq> ''plugins''"
  "prefixCollectionName wdr \<noteq> ''organization''"
  "PluginCollectionsCollectionName \<noteq> prefixCollectionName wdr"
  "''plugins'' \<noteq> prefixCollectionName wdr"
  "''organization'' \<noteq> prefixCollectionName wdr"
  using getPrefixedCollectionName_neq
  by (simp_all add: prefixCollectionName_def collection_name_defs not_sym)

lemma insertOne_frame:
  "insertOne coll d s = Inr s' \<Longrightarrow> c \<noteq> coll \<Longrightarrow> colls s' c = colls s c"
  by (auto simp: insertOne_def dest: CreateMongoDbDoc_frame split: option.splits sum.splits)

lemma insertOne_online:
  "insertOne coll d s = Inr s' \<Longrightarrow> online s' = online s"
  by (auto simp: insertOne_def dest: CreateMongoDbDoc_online_kept split: option.splits sum.splits)

lemma handlePost_frame:
  "c \<noteq> prefixCollectionName wdr \<Longrightarrow> colls (fst (handlePost wdr s w)) c = colls s c"
  by (auto simp: handlePost_def dest: insertOne_frame split: sum.splits)

lemma handlePost_online [simp]: "online (fst (handlePost wdr s w)) = online s"
  by (auto simp: handlePost_def dest: insertOne_online split: sum.splits)

lemma handlePut_store [simp]: "fst (handlePut wdr s w) = s"
  by (simp add: handlePut_def split: sum.splits option.splits)

lemma handleDelete_store [simp]: "fst (handleDelete wdr s w) = s"
  by (simp add: handleDelete_def)

lemma dispatch_frame:
  "c \<noteq> prefixCollectionName wdr \<Longrightarrow> colls (fst (dispatch m wdr s w)) c = colls s c"
  by (simp add: dispatch_def handlePost_frame)

lemma dispatch_online [simp]: "online (fst (dispatch m wdr s w)) = online s"
  by (simp add: dispatch_def)

lemma dispatch_registry [simp]: "registry (fst (dispatch m wdr s w)) = registry s"
  by (simp add: registry_def dispatch_frame)

lemma recordExists_frame:
  "colls s' c = colls s c \<Longrightarrow> online s' = online s \<Longrightarrow> recordExists c i s' = recordExists c i s"
  by (simp add: recordExists_def)

subsection \<open>The entry point, case by case\<close>

lemma WriteData_checked:
  assumes "decode_request body = Inr wdr"
    and "recordExists ''plugins'' (PluginID wdr) s" and "recordExists ''organization'' (OrganizationID wdr) s"
  shows "WriteData m body s =
           dispatch m wdr (register_if_absent (PluginID wdr) (OrganizationID wdr) (CollectionName wdr) s)
             empty_response"
  using assms by (simp add: WriteData_def)

lemma WriteData_online [simp]: "online (fst (WriteData m body s)) = online s"
  by (simp add: WriteData_def split: sum.splits)

lemma WriteData_keeps_checked:
  assumes "c = ''plugins'' \<or> c = ''organization''"
  shows "recordExists c i (fst (WriteData m body s)) = recordExists c i s"
  using assms
  by (auto intro!: recordExists_frame
      simp: WriteData_def dispatch_frame register_if_absent_frame collection_name_defs split: sum.splits)

lemma prefixCollectionName_not_system: "prefixCollectionName wdr \<notin> set system_collections"
  by (simp add: prefixCollectionName_def getPrefixedCollectionName_not_system)

lemma recordExists_dispatch [simp]:
  "recordExists ''plugins'' i (fst (dispatch m wdr s w)) = recordExists ''plugins'' i s"
  "recordExists ''organization'' i (fst (dispatch m wdr s w)) = recordExists ''organization'' i s"
  using prefixCollectionName_not_system[of wdr]
  by (auto intro!: recordExists_frame simp: dispatch_frame system_collections_def collection_name_defs)

lemma prefixCollectionName_ns_coll: "prefixCollectionName wdr = ns_coll (req_triple wdr)"
  by (simp add: prefixCollectionName_def req_triple_def)

lemma WriteData_post_single_store:
  assumes "decode_request body = Inr wdr"
    and "recordExists ''plugins'' (PluginID wdr) s" and "recordExists ''organization'' (OrganizationID wdr) s"
    and "\<not> BulkWrite wdr" and "Payload wdr = JObj d"
  shows "fst (WriteData ''POST'' body s) =
           (let s1 = register_if_absent (PluginID wdr) (OrganizationID wdr) (CollectionName wdr) s
            in s1\<lparr>colls := (colls s1)(prefixCollectionName wdr := colls s1 (prefixCollectionName wdr) @ [d])\<rparr>)"
proof -
  have on: "online s" using assms(2) by (simp add: recordExists_def)
  then show ?thesis
    using assms by (simp add: WriteData_checked dispatch_def handlePost_def insertOne_def CreateMongoDbDoc_def Let_def)
qed

subsection \<open>Answers and stored documents\<close>

lemma handlePost_answer:
  "final_status (snd (handlePost wdr s empty_response)) \<in> {201, 500} \<and>
   length (resp_body (snd (handlePost wdr s empty_response))) = 1"
  by (simp add: handlePost_def split: sum.splits)

lemma handlePut_answer:
  "final_status (snd (handlePut wdr s empty_response)) \<in> {200, 400, 500} \<and>
   length (resp_body (snd (handlePut wdr s empty_response))) = 1"
  by (simp add: handlePut_def split: sum.splits option.splits)

lemma handleDelete_answer:
  "final_status (snd (handleDelete wdr s empty_response)) = 200 \<and>
   length (resp_body (snd (handleDelete wdr s empty_response))) = 1"
  by (simp add: handleDelete_def resp_status_Write final_status_def)

lemma dispatch_answer:
  "final_status (snd (dispatch m wdr s empty_response)) \<in> set answer_codes \<and>
   length (resp_body (snd (dispatch m wdr s empty_response))) \<le> 1"
  using handlePost_answer[of wdr s] handlePut_answer[of wdr s] handleDelete_answer[of wdr s]
  by (auto simp: dispatch_def answer_codes_def final_status_def)

subsection \<open>Requests that fail the existence checks\<close>

text \<open>
  C1: a request whose plugin does not exist is answered 404 with the message
  \<open>plugin with this id does not exist\<close>, and the store is left exactly as it was
  (no registration, no write).
\<close>

theorem WriteData_plugin_missing:
  assumes "decode_request body = Inr wdr" and "\<not> recordExists ''plugins'' (PluginID wdr) s"
  shows "fst (WriteData m body s) = s \<and> final_status (snd (WriteData m body s)) = 404 \<and>
         resp_body (snd (WriteData m body s)) =
           [JsonChunk (JObj [(''status'', JNum 404),
                             (''message'', JStr ''plugin with this id does not exist'')])]"
  using assms by (simp add: WriteData_def)

theorem WriteData_plugin_missing_witness:
  "decode_request (ex_body False ''notes'' ex_note) = Inr (ex_request False ''notes'' ex_note) \<and>
   \<not> recordExists ''plugins'' ''p1'' (ex_store\<lparr>colls := (colls ex_store)(''plugins'' := [])\<rparr>) \<and>
   final_status (snd (WriteData ''POST'' (ex_body False ''notes'' ex_note)
     (ex_store\<lparr>colls := (colls ex_store)(''plugins'' := [])\<rparr>))) = 404"
proof -
  have d: "decode_request (ex_body False ''notes'' ex_note) = Inr (ex_request False ''notes'' ex_note)"
    by (simp add: ex_decode)
  have p: "\<not> recordExists ''plugins'' (PluginID (ex_request False ''notes'' ex_note))
             (ex_store\<lparr>colls := (colls ex_store)(''plugins'' := [])\<rparr>)"
    by (simp add: recordExists_def)
  from WriteData_plugin_missing[OF d p, of "''POST''"] d p show ?thesis by simp
qed

text \<open>
  C2: a request whose plugin exists but whose organization does not is answered
  404 with \<open>organization with this id does not exist\<close>, with no registration
  and no write.
\<close>

theorem WriteData_org_missing:
  assumes "decode_request body = Inr wdr" and "recordExists ''plugins'' (PluginID wdr) s"
    and "\<not> recordExists ''organization'' (OrganizationID wdr) s"
  shows "fst (WriteData m body s) = s \<and> final_status (snd (WriteData m body s)) = 404 \<and>
         resp_body (snd (WriteData m body s)) =
           [JsonChunk (JObj [(''status'', JNum 404),
                             (''message'', JStr ''organization with this id does not exist'')])]"
  using assms by (simp add: WriteData_def)

theorem WriteData_org_missing_witness:
  "recordExists ''plugins'' ''p1'' (ex_store\<lparr>colls := (colls ex_store)(''organization'' := [])\<rparr>) \<and>
   \<not> recordExists ''organization'' ''o1'' (ex_store\<lparr>colls := (colls ex_store)(''organization'' := [])\<rparr>) \<and>
   final_status (snd (WriteData ''POST'' (ex_body False ''notes'' ex_note)
     (ex_store\<lparr>colls := (colls ex_store)(''organization'' := [])\<rparr>))) = 404"
proof -
  let ?s = "ex_store\<lparr>colls := (colls ex_store)(''organization'' := [])\<rparr>"
  have d: "decode_request (ex_body False ''notes'' ex_note) = Inr (ex_request False ''notes'' ex_note)"
    by (simp add: ex_decode)
  have p: "recordExists ''plugins'' (PluginID (ex_request False ''notes'' ex_note)) ?s"
    by (simp add: recordExists_def ex_store_def matches_def)
  have o: "\<not> recordExists ''organization'' (OrganizationID (ex_request False ''notes'' ex_note)) ?s"
    by (simp add: recordExists_def)
  from WriteData_org_missing[OF d p o, of "''POST''"] p o show ?thesis by simp
qed

text \<open>
  C14: a body that does not decode into a \<open>writeDataRequest\<close> is answered 422
  with \<open>error processing request: \<close> and the decoder's message, and nothing is
  written.
\<close>

theorem WriteData_decode_error:
  assumes "decode_request body = Inl e"
  shows "fst (WriteData m body s) = s \<and> final_status (snd (WriteData m body s)) = 422 \<and>
         resp_body (snd (WriteData m body s)) =
           [JsonChunk (JObj [(''status'', JNum 422),
              (''message'', JStr (''error processing request: '' @ json_error_msg e))])]"
  using assms by (simp add: WriteData_def)

theorem WriteData_decode_error_witness:
  "decode_request (Some (JObj [(''plugin_id'', JNum 7)])) =
     Inl (UnmarshalTypeError ''number'' ''writeDataRequest.plugin_id'' ''string'') \<and>
   final_status (snd (WriteData ''POST'' (Some (JObj [(''plugin_id'', JNum 7)])) ex_store)) = 422"
proof -
  have d: "decode_request (Some (JObj [(''plugin_id'', JNum 7)])) =
     Inl (UnmarshalTypeError ''number'' ''writeDataRequest.plugin_id'' ''string'')"
    by (simp add: decode_eval)
  from WriteData_decode_error[OF d, of "''POST''" ex_store] d show ?thesis by simp
qed

subsection \<open>Creating documents\<close>

text \<open>
  C3: a single-record POST for an existing plugin and organization with an object
  payload registers the triple if it was not registered, appends the payload to
  the triple's physical collection, and answers 201 with \<open>insert_count\<close> 1.
\<close>

theorem WriteData_post_single:
  assumes "decode_request body = Inr wdr"
    and "recordExists ''plugins'' (PluginID wdr) s" and "recordExists ''organization'' (OrganizationID wdr) s"
    and "\<not> BulkWrite wdr" and "Payload wdr = JObj d"
  shows "registry (fst (WriteData ''POST'' body s)) =
           registry s @ (if (PluginID wdr, OrganizationID wdr, CollectionName wdr) \<in> set (registry s) then []
                         else [(PluginID wdr, OrganizationID wdr, CollectionName wdr)]) \<and>
         colls (fst (WriteData ''POST'' body s)) (prefixCollectionName wdr) =
           colls s (prefixCollectionName wdr) @ [d] \<and>
         final_status (snd (WriteData ''POST'' body s)) = 201 \<and>
         resp_body (snd (WriteData ''POST'' body s)) =
           [JsonChunk (JObj [(''status'', JNum 200), (''message'', JStr ''success''),
                             (''data'', count_json ''insert_count'' 1)])]"
proof -
  let ?s1 = "register_if_absent (PluginID wdr) (OrganizationID wdr) (CollectionName wdr) s"
  let ?s2 = "?s1\<lparr>colls := (colls ?s1)(prefixCollectionName wdr := colls ?s1 (prefixCollectionName wdr) @ [d])\<rparr>"
  have on: "online s" using assms(2) by (simp add: recordExists_def)
  have pre: "colls ?s1 (prefixCollectionName wdr) = colls s (prefixCollectionName wdr)"
    by (simp add: register_if_absent_frame)
  have w: "WriteData ''POST'' body s = handlePost wdr ?s1 empty_response"
    using assms(1-3) by (simp add: WriteData_checked dispatch_def)
  have ins: "insertOne (prefixCollectionName wdr) (Payload wdr) ?s1 = Inr ?s2"
    using assms(5) on by (simp add: insertOne_def CreateMongoDbDoc_def)
  have r: "registry ?s2 = registry ?s1"
    by (simp add: registry_def)
  show ?thesis
    using w ins r pre on assms(4)
    by (simp add: handlePost_def registry_register_if_absent GetSuccess_def encode_json_def
        resp_status_Write final_status_def WriteHeader_def)
qed

theorem WriteData_post_single_witness:
  "final_status (snd (WriteData ''POST'' (ex_body False ''notes'' ex_note) ex_store)) = 201 \<and>
   registry (fst (WriteData ''POST'' (ex_body False ''notes'' ex_note) ex_store)) = [(''p1'', ''o1'', ''notes'')] \<and>
   colls (fst (WriteData ''POST'' (ex_body False ''notes'' ex_note) ex_store)) ''p1_o1_notes'' =
     [[(''text'', JStr ''hi'')]]"
proof -
  have d: "decode_request (ex_body False ''notes'' ex_note) = Inr (ex_request False ''notes'' ex_note)"
    by (simp add: ex_decode)
  have pl: "Payload (ex_request False ''notes'' ex_note) = JObj [(''text'', JStr ''hi'')]"
    by (simp add: ex_note_def)
  have b: "\<not> BulkWrite (ex_request False ''notes'' ex_note)" by simp
  have "prefixCollectionName (ex_request False ''notes'' ex_note) = ''p1_o1_notes''"
    by (simp add: prefixCollectionName_def getPrefixedCollectionName_def)
  then show ?thesis
    using WriteData_post_single[OF d ex_exists_req b pl] by simp
qed

text \<open>
  C9: a bulk POST whose payload is not a JSON array fails the type assertion of
  \<open>insertMany\<close>: it is answered 500 with
  \<open>an error occured: type assertion error\<close> and no document is written, but the
  namespace registration of lines 42--45 has already happened.
\<close>

theorem WriteData_post_bulk_shape:
  assumes "decode_request body = Inr wdr"
    and "recordExists ''plugins'' (PluginID wdr) s" and "recordExists ''organization'' (OrganizationID wdr) s"
    and "BulkWrite wdr" and "as_array (Payload wdr) = None"
  shows "fst (WriteData ''POST'' body s) =
           register_if_absent (PluginID wdr) (OrganizationID wdr) (CollectionName wdr) s \<and>
         final_status (snd (WriteData ''POST'' body s)) = 500 \<and>
         resp_body (snd (WriteData ''POST'' body s)) =
           [JsonChunk (JObj [(''status'', JNum 500),
                             (''message'', JStr ''an error occured: type assertion error'')])]"
  using assms by (simp add: WriteData_checked dispatch_def handlePost_def insertMany_def)

theorem WriteData_post_bulk_shape_witness:
  "as_array ex_note = None \<and>
   final_status (snd (WriteData ''POST'' (ex_body True ''notes'' ex_note) ex_store)) = 500 \<and>
   registry (fst (WriteData ''POST'' (ex_body True ''notes'' ex_note) ex_store)) = [(''p1'', ''o1'', ''notes'')]"
proof -
  have d: "decode_request (ex_body True ''notes'' ex_note) = Inr (ex_request True ''notes'' ex_note)"
    by (simp add: ex_decode)
  have a: "as_array (Payload (ex_request True ''notes'' ex_note)) = None"
    by (simp add: ex_note_def)
  have b: "BulkWrite (ex_request True ''notes'' ex_note)" by simp
  from WriteData_post_bulk_shape[OF d ex_exists_req b a] a show ?thesis
    by (simp add: registry_register_if_absent)
qed

text \<open>
  C11: a bulk POST with an array payload is answered 201 with \<open>insert_count\<close> 0
  and writes no document: \<open>insertMany\<close> checks the shape and returns 0 without
  calling the store.
\<close>

theorem WriteData_post_bulk_count:
  assumes "decode_request body = Inr wdr"
    and "recordExists ''plugins'' (PluginID wdr) s" and "recordExists ''organization'' (OrganizationID wdr) s"
    and "BulkWrite wdr" and "Payload wdr = JArr xs"
  shows "fst (WriteData ''POST'' body s) =
           register_if_absent (PluginID wdr) (OrganizationID wdr) (CollectionName wdr) s \<and>
         final_status (snd (WriteData ''POST'' body s)) = 201 \<and>
         resp_body (snd (WriteData ''POST'' body s)) =
           [JsonChunk (JObj [(''status'', JNum 200), (''message'', JStr ''success''),
                             (''data'', count_json ''insert_count'' 0)])]"
  using assms
  by (simp add: WriteData_checked dispatch_def handlePost_def insertMany_def GetSuccess_def
      encode_json_def resp_status_Write final_status_def WriteHeader_def)

theorem WriteData_post_bulk_count_witness:
  "final_status (snd (WriteData ''POST'' (ex_body True ''notes'' (JArr [ex_note, ex_note])) ex_store)) = 201 \<and>
   colls (fst (WriteData ''POST'' (ex_body True ''notes'' (JArr [ex_note, ex_note])) ex_store)) ''p1_o1_notes'' = []"
proof -
  have d: "decode_request (ex_body True ''notes'' (JArr [ex_note, ex_note])) =
      Inr (ex_request True ''notes'' (JArr [ex_note, ex_note]))"
    by (rule ex_decode) simp
  have a: "Payload (ex_request True ''notes'' (JArr [ex_note, ex_note])) = JArr [ex_note, ex_note]"
    by simp
  have b: "BulkWrite (ex_request True ''notes'' (JArr [ex_note, ex_note]))" by simp
  have n: "''p1_o1_notes'' \<noteq> PluginCollectionsCollectionName" by (simp add: collection_name_defs)
  from WriteData_post_bulk_count[OF d ex_exists_req b a] n show ?thesis
    by (simp add: register_if_absent_frame)
qed

subsection \<open>Updating and deleting\<close>

text \<open>
  C10: a PUT with an empty collection name is refused with 400
  \<open>invalid data destination\<close>, but only after the registration of lines
  42--45, which records the triple with the empty collection name.
\<close>

theorem WriteData_put_invalid_destination:
  assumes "decode_request body = Inr wdr"
    and "recordExists ''plugins'' (PluginID wdr) s" and "recordExists ''organization'' (OrganizationID wdr) s"
    and "CollectionName wdr = []"
  shows "fst (WriteData ''PUT'' body s) = register_if_absent (PluginID wdr) (OrganizationID wdr) [] s \<and>
         final_status (snd (WriteData ''PUT'' body s)) = 400 \<and>
         resp_body (snd (WriteData ''PUT'' body s)) =
           [JsonChunk (JObj [(''status'', JNum 400), (''message'', JStr ''invalid data destination'')])]"
  using assms by (simp add: WriteData_checked dispatch_def handlePut_def)

theorem WriteData_put_invalid_destination_witness:
  "final_status (snd (WriteData ''PUT'' (ex_body False [] ex_note) ex_store)) = 400 \<and>
   registry (fst (WriteData ''PUT'' (ex_body False [] ex_note) ex_store)) = [(''p1'', ''o1'', [])]"
proof -
  have d: "decode_request (ex_body False [] ex_note) = Inr (ex_request False [] ex_note)"
    by (simp add: ex_decode)
  have c: "CollectionName (ex_request False [] ex_note) = []" by simp
  from WriteData_put_invalid_destination[OF d ex_exists_req c] show ?thesis
    by (simp add: registry_register_if_absent)
qed

text \<open>
  C12: a single-record PUT that passes every check with an object payload is
  answered 200 with \<open>update_count\<close> 1, yet no document changes:
  \<open>updateOne\<close> only checks the payload's shape.
\<close>

theorem WriteData_put_single:
  assumes "decode_request body = Inr wdr"
    and "recordExists ''plugins'' (PluginID wdr) s" and "recordExists ''organization'' (OrganizationID wdr) s"
    and "CollectionName wdr \<noteq> []" and "PluginID wdr \<noteq> []"
    and "\<not> BulkWrite wdr" and "Payload wdr = JObj d"
  shows "fst (WriteData ''PUT'' body s) =
           register_if_absent (PluginID wdr) (OrganizationID wdr) (CollectionName wdr) s \<and>
         final_status (snd (WriteData ''PUT'' body s)) = 200 \<and>
         resp_body (snd (WriteData ''PUT'' body s)) =
           [JsonChunk (JObj [(''status'', JNum 200), (''message'', JStr ''success''),
                             (''data'', count_json ''update_count'' 1)])]"
  using assms by (simp add: WriteData_checked dispatch_def handlePut_def updateOne_def)

theorem WriteData_put_single_witness:
  "final_status (snd (WriteData ''PUT'' (ex_body False ''notes'' ex_note) ex_store)) = 200 \<and>
   colls (fst (WriteData ''PUT'' (ex_body False ''notes'' ex_note) ex_store)) ''p1_o1_notes'' = []"
proof -
  have d: "decode_request (ex_body False ''notes'' ex_note) = Inr (ex_request False ''notes'' ex_note)"
    by (simp add: ex_decode)
  have pl: "Payload (ex_request False ''notes'' ex_note) = JObj [(''text'', JStr ''hi'')]"
    by (simp add: ex_note_def)
  have c: "CollectionName (ex_request False ''notes'' ex_note) \<noteq> []" by simp
  have p: "PluginID (ex_request False ''notes'' ex_note) \<noteq> []" by simp
  have b: "\<not> BulkWrite (ex_request False ''notes'' ex_note)" by simp
  have n: "''p1_o1_notes'' \<noteq> PluginCollectionsCollectionName" by (simp add: collection_name_defs)
  from WriteData_put_single[OF d ex_exists_req c p b pl] n show ?thesis
    by (simp add: register_if_absent_frame)
qed

text \<open>
  C13: a DELETE that passes the checks deletes nothing: it is answered 200 with
  the text \<open>hello world\<close>.
\<close>

theorem WriteData_delete_stub:
  assumes "decode_request body = Inr wdr"
    and "recordExists ''plugins'' (PluginID wdr) s" and "recordExists ''organization'' (OrganizationID wdr) s"
  shows "fst (WriteData ''DELETE'' body s) =
           register_if_absent (PluginID wdr) (OrganizationID wdr) (CollectionName wdr) s \<and>
         final_status (snd (WriteData ''DELETE'' body s)) = 200 \<and>
         resp_body (snd (WriteData ''DELETE'' body s)) = [TextChunk ''hello world'']"
  using assms
  by (simp add: WriteData_checked dispatch_def handleDelete_def resp_status_Write final_status_def)

theorem WriteData_delete_stub_witness:
  "resp_body (snd (WriteData ''DELETE'' (ex_body False ''notes'' ex_note) ex_store)) = [TextChunk ''hello world'']"
proof -
  have d: "decode_request (ex_body False ''notes'' ex_note) = Inr (ex_request False ''notes'' ex_note)"
    by (simp add: ex_decode)
  from WriteData_delete_stub[OF d ex_exists_req] show ?thesis by simp
qed

text \<open>
  C16: any method other than POST, PUT and DELETE gets an empty 200 answer, after
  the namespace registration.
\<close>

theorem WriteData_other_method:
  assumes "decode_request body = Inr wdr"
    and "recordExists ''plugins'' (PluginID wdr) s" and "recordExists ''organization'' (OrganizationID wdr) s"
    and "m \<notin> {''POST'', ''PUT'', ''DELETE''}"
  shows "fst (WriteData m body s) = register_if_absent (PluginID wdr) (OrganizationID wdr) (CollectionName wdr) s \<and>
         final_status (snd (WriteData m body s)) = 200 \<and> resp_body (snd (WriteData m body s)) = []"
  using assms by (simp add: WriteData_checked dispatch_def final_status_def)

theorem WriteData_other_method_witness:
  "''GET'' \<notin> {''POST'', ''PUT'', ''DELETE''} \<and>
   resp_body (snd (WriteData ''GET'' (ex_body False ''notes'' ex_note) ex_store)) = [] \<and>
   registry (fst (WriteData ''GET'' (ex_body False ''notes'' ex_note) ex_store)) = [(''p1'', ''o1'', ''notes'')]"
proof -
  have d: "decode_request (ex_body False ''notes'' ex_note) = Inr (ex_request False ''notes'' ex_note)"
    by (simp add: ex_decode)
  have m: "''GET'' \<notin> {''POST'', ''PUT'', ''DELETE''}" by simp
  from WriteData_other_method[OF d ex_exists_req m] m show ?thesis
    by (simp add: registry_register_if_absent)
qed

subsection \<open>Isolation and the registry invariants\<close>

text \<open>
  C4: a request changes no collection other than its own physical collection
  \<open>prefixCollectionName wdr\<close> and the registry collection \<open>plugin_collections\<close>.
\<close>

theorem WriteData_isolation:
  assumes "decode_request body = Inr wdr"
    and "c \<noteq> prefixCollectionName wdr" and "c \<noteq> PluginCollectionsCollectionName"
  shows "colls (fst (WriteData m body s)) c = colls s c"
  using assms by (simp add: WriteData_def dispatch_frame register_if_absent_frame split: sum.splits)

theorem WriteData_isolation_witness:
  "''p1_o1_other'' \<noteq> prefixCollectionName (ex_request False ''notes'' ex_note) \<and>
   ''p1_o1_other'' \<noteq> PluginCollectionsCollectionName \<and>
   colls (fst (WriteData ''POST'' (ex_body False ''notes'' ex_note) ex_store)) ''p1_o1_other'' = []"
proof -
  have d: "decode_request (ex_body False ''notes'' ex_note) = Inr (ex_request False ''notes'' ex_note)"
    by (simp add: ex_decode)
  have c1: "''p1_o1_other'' \<noteq> prefixCollectionName (ex_request False ''notes'' ex_note)"
    by (simp add: prefixCollectionName_def getPrefixedCollectionName_def)
  have c2: "''p1_o1_other'' \<noteq> PluginCollectionsCollectionName"
    by (simp add: collection_name_defs)
  from WriteData_isolation[OF d c1 c2, of "''POST''" ex_store] c1 c2 show ?thesis
    by (simp add: ex_store_def)
qed

text \<open>
  C5: no request ever changes a system collection of \<open>models.go\<close> other than the
  registry: the physical name of a plugin collection has two underscores, every
  system name at most one.
\<close>

theorem WriteData_system_collections:
  assumes "c \<in> set system_collections" and "c \<noteq> PluginCollectionsCollectionName"
  shows "colls (fst (WriteData m body s)) c = colls s c"
proof (cases "decode_request body")
  case (Inl e)
  then show ?thesis by (simp add: WriteData_def)
next
  case (Inr wdr)
  from assms(1) have "c \<noteq> prefixCollectionName wdr"
    using getPrefixedCollectionName_not_system by (auto simp: prefixCollectionName_def)
  with Inr assms(2) show ?thesis
    by (simp add: WriteData_def dispatch_frame register_if_absent_frame)
qed

theorem WriteData_system_collections_witness:
  "''plugins'' \<in> set system_collections \<and> ''plugins'' \<noteq> PluginCollectionsCollectionName \<and>
   colls (fst (WriteData ''POST'' (ex_body False ''notes'' ex_note) ex_store)) ''plugins'' =
     [[(''_id'', JStr ''p1'')]]"
proof -
  have c1: "''plugins'' \<in> set system_collections"
    by (simp add: system_collections_def collection_name_defs)
  have c2: "''plugins'' \<noteq> PluginCollectionsCollectionName"
    by (simp add: collection_name_defs)
  from WriteData_system_collections[OF c1 c2, of "''POST''" "ex_body False ''notes'' ex_note" ex_store] c1 c2
  show ?thesis by (simp add: ex_store_def)
qed

text \<open>
  C6: a request never records a triple twice: if the registry has no duplicate
  before the request, it has none after it.
\<close>

theorem WriteData_registry_distinct:
  "distinct (registry s) \<Longrightarrow> distinct (registry (fst (WriteData m body s)))"
  by (simp add: WriteData_def registry_distinct_register_if_absent split: sum.splits)

theorem WriteData_registry_distinct_witness:
  "distinct (registry ex_store) \<and>
   distinct (registry (fst (WriteData ''POST'' (ex_body False ''notes'' ex_note) ex_store)))"
  using WriteData_registry_distinct[of ex_store "''POST''" "ex_body False ''notes'' ex_note"] by simp

text \<open>
  C7: a request keeps the registry sound: every registry record names a plugin and
  an organization that exist, since registration happens only after both
  existence checks and no request writes the \<open>plugins\<close> or \<open>organization\<close>
  collections.
\<close>

theorem WriteData_registry_sound:
  assumes "registry_sound s"
  shows "registry_sound (fst (WriteData m body s))"
proof -
  let ?s' = "fst (WriteData m body s)"
  have new: "set (registry ?s') \<subseteq> set (registry s) \<union>
      {(pid, oid, cn). recordExists ''plugins'' pid s \<and> recordExists ''organization'' oid s}"
    by (auto simp: WriteData_def set_registry_register_if_absent split: sum.splits if_splits)
  have "recordExists ''plugins'' i ?s' = recordExists ''plugins'' i s"
    and "recordExists ''organization'' i ?s' = recordExists ''organization'' i s" for i
    by (simp_all add: WriteData_keeps_checked)
  with new assms show ?thesis
    by (fastforce simp: registry_sound_def)
qed

theorem WriteData_registry_sound_witness:
  "registry_sound ex_store \<and>
   registry_sound (fst (WriteData ''POST'' (ex_body False ''notes'' ex_note) ex_store))"
proof -
  have r: "registry_sound ex_store" by (simp add: registry_sound_def)
  from WriteData_registry_sound[OF r] r show ?thesis by simp
qed

subsection \<open>Decoding and physical names\<close>

text \<open>
  C15: two requests whose plugin and organization ids contain no underscore write
  to the same physical collection only if they name the same triple.
\<close>

theorem prefixCollectionName_inj:
  assumes "CHR ''_'' \<notin> set (PluginID r)" and "CHR ''_'' \<notin> set (PluginID r')"
    and "CHR ''_'' \<notin> set (OrganizationID r)" and "CHR ''_'' \<notin> set (OrganizationID r')"
    and "prefixCollectionName r = prefixCollectionName r'"
  shows "(PluginID r, OrganizationID r, CollectionName r) = (PluginID r', OrganizationID r', CollectionName r')"
proof -
  from assms(5) have "getPrefixedCollectionName (PluginID r) (OrganizationID r) (CollectionName r) =
      getPrefixedCollectionName (PluginID r') (OrganizationID r') (CollectionName r')"
    by (simp add: prefixCollectionName_def)
  with assms(1-4) show ?thesis by (rule getPrefixedCollectionName_inj)
qed

theorem prefixCollectionName_inj_witness:
  "CHR ''_'' \<notin> set (PluginID (ex_request False ''notes'' ex_note)) \<and>
   CHR ''_'' \<notin> set (OrganizationID (ex_request False ''notes'' ex_note)) \<and>
   prefixCollectionName (ex_request False ''notes'' ex_note) = prefixCollectionName (ex_request True ''notes'' JNull) \<and>
   CollectionName (ex_request False ''notes'' ex_note) = CollectionName (ex_request True ''notes'' JNull)"
proof -
  have a: "CHR ''_'' \<notin> set (PluginID (ex_request False ''notes'' ex_note))" by simp
  have b: "CHR ''_'' \<notin> set (PluginID (ex_request True ''notes'' JNull))" by simp
  have c: "CHR ''_'' \<notin> set (OrganizationID (ex_request False ''notes'' ex_note))" by simp
  have e: "CHR ''_'' \<notin> set (OrganizationID (ex_request True ''notes'' JNull))" by simp
  have f: "prefixCollectionName (ex_request False ''notes'' ex_note) = prefixCollectionName (ex_request True ''notes'' JNull)"
    by (simp add: prefixCollectionName_def)
  from prefixCollectionName_inj[OF a b c e f] a c f show ?thesis by simp
qed

text \<open>C27: whatever the method, body and store, WriteData answers with one of the status codes 200, 201, 400, 404, 422, 500 and writes at most one value to the body.\<close>

theorem WriteData_answer_bounds:
  "final_status (snd (WriteData m body s)) \<in> set answer_codes \<and>
   length (resp_body (snd (WriteData m body s))) \<le> 1"
  using dispatch_answer
  by (simp add: WriteData_def answer_codes_def split: sum.splits)

text \<open>
  C25: a single-record POST that passes the checks refines the abstract
  namespaced store: viewed through \<open>ns_abs\<close>, the store after \<open>WriteData\<close> is the
  abstract store with the payload appended to the request's triple and that
  triple registered, every other triple unchanged (for ids without underscores).
\<close>

theorem WriteData_post_refines:
  assumes "decode_request body = Inr wdr"
    and "recordExists ''plugins'' (PluginID wdr) s" and "recordExists ''organization'' (OrganizationID wdr) s"
    and "\<not> BulkWrite wdr" and "Payload wdr = JObj d" and "ns_ok (req_triple wdr)"
  shows "ns_abs (fst (WriteData ''POST'' body s)) = ns_post (req_triple wdr) d (ns_abs s)"
proof -
  let ?s1 = "register_if_absent (PluginID wdr) (OrganizationID wdr) (CollectionName wdr) s"
  have on: "online s" using assms(2) by (simp add: recordExists_def)
  have st: "fst (WriteData ''POST'' body s) =
              ?s1\<lparr>colls := (colls ?s1)(ns_coll (req_triple wdr) := colls ?s1 (ns_coll (req_triple wdr)) @ [d])\<rparr>"
    using WriteData_post_single_store[OF assms(1-5)] by (simp add: prefixCollectionName_ns_coll Let_def)
  have s1: "colls ?s1 (ns_coll t) = colls s (ns_coll t)" for t
    by (simp add: register_if_absent_frame)
  have view: "ns_view (fst (WriteData ''POST'' body s)) t =
                ((ns_view s)(req_triple wdr := ns_view s (req_triple wdr) @ [d])) t" for t
  proof (cases "t = req_triple wdr")
    case True
    with assms(6) show ?thesis by (simp add: st ns_view_def s1)
  next
    case False
    then have "ns_ok t \<Longrightarrow> ns_coll t \<noteq> ns_coll (req_triple wdr)"
      using assms(6) ns_coll_inj by blast
    with False show ?thesis by (simp add: st ns_view_def s1)
  qed
  have reg: "set (registry (fst (WriteData ''POST'' body s))) = insert (req_triple wdr) (set (registry s))"
    using on by (simp add: st set_registry_register_if_absent req_triple_def)
  show ?thesis using view reg by (auto simp: ns_abs_def ns_post_def)
qed

theorem WriteData_post_refines_witness:
  "ns_abs (fst (WriteData ''POST'' (ex_body False ''notes'' ex_note) ex_store)) =
   ns_post (''p1'', ''o1'', ''notes'') [(''text'', JStr ''hi'')] (ns_abs ex_store)"
proof -
  have d: "decode_request (ex_body False ''notes'' ex_note) = Inr (ex_request False ''notes'' ex_note)"
    by (simp add: ex_decode)
  have pl: "Payload (ex_request False ''notes'' ex_note) = JObj [(''text'', JStr ''hi'')]"
    by (simp add: ex_note_def)
  have b: "\<not> BulkWrite (ex_request False ''notes'' ex_note)" by simp
  have ok: "ns_ok (req_triple (ex_request False ''notes'' ex_note))" by (simp add: req_triple_def)
  have t: "req_triple (ex_request False ''notes'' ex_note) = (''p1'', ''o1'', ''notes'')"
    by (simp add: req_triple_def)
  show ?thesis using WriteData_post_refines[OF d ex_exists_req b pl ok] t by simp
qed

end
