(* ===== verification/Concurrency.thy ===== *)
theory Concurrency
  imports WriteData "HOL-Library.Sublist"
begin

text \<open>
  Concurrent requests.  Go's HTTP server runs every request in its own goroutine;
  \<open>WriteData\<close> reaches the shared store at five points (the two existence
  checks, \<open>pluginHasCollection\<close>, \<open>createPluginCollectionRecord\<close> and the
  method handler's store call).  \<open>req_step\<close> is one request advanced by one of
  these stages; \<open>sys_step\<close> lets any unfinished request take its next step on the
  shared store.  The lemmas show that for every store an interleaving of two
  identical requests records an unregistered triple twice (the check-then-create
  race of lines 43--44), that every interleaving still keeps the registry sound,
  and that no interleaving changes a system collection other than the registry.
\<close>

section \<open>Stages of one request\<close>

datatype stage =
    Received string "json option"
  | CheckPlugin string writeDataRequest
  | CheckOrg string writeDataRequest
  | CheckNs string writeDataRequest
  | CreateNs string writeDataRequest
  | Dispatch string writeDataRequest
  | Done response

fun is_done :: "stage \<Rightarrow> bool" where
  "is_done (Done _) = True"
| "is_done _ = False"

fun req_step :: "stage \<Rightarrow> store \<Rightarrow> stage \<times> store" where
  "req_step (Received m body) s =
     (case decode_request body of
        Inl e \<Rightarrow> (Done (GetError (''error processing request: '' @ json_error_msg e) 422 empty_response), s)
      | Inr wdr \<Rightarrow> (CheckPlugin m wdr, s))"
| "req_step (CheckPlugin m wdr) s =
     (if \<not> recordExists ''plugins'' (PluginID wdr) s
      then (Done (GetError ''plugin with this id does not exist'' 404 empty_response), s)
      else (CheckOrg m wdr, s))"
| "req_step (CheckOrg m wdr) s =
     (if \<not> recordExists ''organization'' (OrganizationID wdr) s
      then (Done (GetError ''organization with this id does not exist'' 404 empty_response), s)
      else (CheckNs m wdr, s))"
| "req_step (CheckNs m wdr) s =
     (if \<not> pluginHasCollection (PluginID wdr) (OrganizationID wdr) (CollectionName wdr) s
      then (CreateNs m wdr, s) else (Dispatch m wdr, s))"
| "req_step (CreateNs m wdr) s =
     (Dispatch m wdr,
      case createPluginCollectionRecord (PluginID wdr) (OrganizationID wdr) (CollectionName wdr) s of
        Inl _ \<Rightarrow> s
      | Inr s' \<Rightarrow> s')"
| "req_step (Dispatch m wdr) s =
     (Done (snd (dispatch m wdr s empty_response)), fst (dispatch m wdr s empty_response))"
| "req_step (Done w) s = (Done w, s)"

section \<open>Interleaving\<close>

type_synonym sys = "store \<times> stage list"

inductive sys_step :: "sys \<Rightarrow> sys \<Rightarrow> bool" where
  step: "i < length rs \<Longrightarrow> \<not> is_done (rs ! i) \<Longrightarrow> req_step (rs ! i) s = (st', s') \<Longrightarrow>
         sys_step (s, rs) (s', rs[i := st'])"

abbreviation sys_steps :: "sys \<Rightarrow> sys \<Rightarrow> bool" where
  "sys_steps \<equiv> sys_step\<^sup>*\<^sup>*"

text \<open>A schedule: the index of the request that moves next (others are no-ops).\<close>

fun sched_step :: "sys \<Rightarrow> nat \<Rightarrow> sys" where
  "sched_step (s, rs) i =
     (if i < length rs \<and> \<not> is_done (rs ! i)
      then (case req_step (rs ! i) s of (st', s') \<Rightarrow> (s', rs[i := st']))
      else (s, rs))"

definition run_schedule :: "nat list \<Rightarrow> sys \<Rightarrow> sys" where
  "run_schedule sched st = foldl sched_step st sched"

text \<open>
  What a request in flight has already established about the store: past the
  plugin check the plugin exists, past the organization check both exist.
\<close>

fun stage_ok :: "store \<Rightarrow> stage \<Rightarrow> bool" where
  "stage_ok s (CheckOrg m wdr) = recordExists ''plugins'' (PluginID wdr) s"
| "stage_ok s (CheckNs m wdr) =
     (recordExists ''plugins'' (PluginID wdr) s \<and> recordExists ''organization'' (OrganizationID wdr) s)"
| "stage_ok s (CreateNs m wdr) =
     (recordExists ''plugins'' (PluginID wdr) s \<and> recordExists ''organization'' (OrganizationID wdr) s)"
| "stage_ok s (Dispatch m wdr) =
     (recordExists ''plugins'' (PluginID wdr) s \<and> recordExists ''organization'' (OrganizationID wdr) s)"
| "stage_ok s _ = True"

text \<open>A request past decoding carries a well-formed payload.\<close>

definition sys_inv :: "sys \<Rightarrow> bool" where
  "sys_inv st \<longleftrightarrow> registry_sound (fst st) \<and> list_all (stage_ok (fst st)) (snd st)"

text \<open>The store only grows: every collection keeps its documents as a prefix.\<close>

definition grows :: "store \<Rightarrow> store \<Rightarrow> bool" where
  "grows s s' \<longleftrightarrow> online s' = online s \<and> (\<forall>c. prefix (colls s c) (colls s' c))"

fun is_received :: "stage \<Rightarrow> bool" where
  "is_received (Received _ _) = True"
| "is_received _ = False"

text \<open>Two identical POSTs of the spec's scenario, both just received.\<close>

definition race_start :: sys where
  "race_start =
     (ex_store, [Received ''POST'' (ex_body False ''notes'' ex_note),
                 Received ''POST'' (ex_body False ''notes'' ex_note)])"

section \<open>Lemmas\<close>

inductive_cases sys_stepE: "sys_step st st'"

lemma sys_step_done: "list_all is_done rs \<Longrightarrow> \<not> sys_step (s, rs) st'"
  by (auto elim!: sys_stepE simp: list_all_length)

subsection \<open>Interleavings\<close>

lemma run_schedule_steps: "sys_steps st (run_schedule sched st)"
proof (induction sched arbitrary: st rule: rev_induct)
  case Nil
  then show ?case by (simp add: run_schedule_def)
next
  case (snoc i sched)
  obtain s rs where e: "run_schedule sched st = (s, rs)" by fastforce
  have "sys_step\<^sup>=\<^sup>= (s, rs) (sched_step (s, rs) i)"
    by (auto intro: sys_step.step split: prod.splits)
  with snoc[of st] e show ?case
    by (auto simp: run_schedule_def elim: rtranclp.rtrancl_into_rtrancl)
qed

text \<open>
  C17: registration is not atomic.  For every store in which the plugin and the
  organization exist and the request's triple is not registered, two identical
  requests (any method) whose steps alternate both find the triple unregistered
  and both create a record, so the registry gains the triple twice; run one
  after the other they add it once.
\<close>

theorem race_duplicate_registration:
  assumes "decode_request body = Inr wdr"
    and "recordExists ''plugins'' (PluginID wdr) s" and "recordExists ''organization'' (OrganizationID wdr) s"
    and "req_triple wdr \<notin> set (registry s)"
  shows "sys_steps (s, [Received m body, Received m body])
           (run_schedule [0,1,0,1,0,1,0,1,0,1,0,1] (s, [Received m body, Received m body])) \<and>
         registry (fst (run_schedule [0,1,0,1,0,1,0,1,0,1,0,1] (s, [Received m body, Received m body]))) =
           registry s @ [req_triple wdr, req_triple wdr] \<and>
         registry (fst (run_schedule [0,0,0,0,0,0,1,1,1,1,1,1] (s, [Received m body, Received m body]))) =
           registry s @ [req_triple wdr]"
proof -
  have on: "online s" using assms(2) by (simp add: recordExists_def)
  have n1: "''plugins'' \<noteq> PluginCollectionsCollectionName" "''organization'' \<noteq> PluginCollectionsCollectionName"
    by (simp_all add: collection_name_defs)
  let ?st = "(s, [Received m body, Received m body])"
  have "registry (fst (run_schedule [0,1,0,1,0,1,0,1,0,1,0,1] ?st)) = registry s @ [req_triple wdr, req_triple wdr]"
    using assms on n1
    by (simp add: run_schedule_def req_triple_def pluginHasCollection_registry createPluginCollectionRecord_online
                  List.map_filter_simps)
  moreover have "registry (fst (run_schedule [0,0,0,0,0,0,1,1,1,1,1,1] ?st)) = registry s @ [req_triple wdr]"
    using assms on n1
    by (simp add: run_schedule_def req_triple_def pluginHasCollection_registry createPluginCollectionRecord_online
                  List.map_filter_simps)
  ultimately show ?thesis by (simp add: run_schedule_steps)
qed

theorem race_duplicate_registration_witness:
  "registry (fst (run_schedule [0,1,0,1,0,1,0,1,0,1,0,1] race_start)) =
     [(''p1'', ''o1'', ''notes''), (''p1'', ''o1'', ''notes'')] \<and>
   registry (fst (run_schedule [0,0,0,0,0,0,1,1,1,1,1,1] race_start)) = [(''p1'', ''o1'', ''notes'')]"
proof -
  have d: "decode_request (ex_body False ''notes'' ex_note) = Inr (ex_request False ''notes'' ex_note)"
    by (simp add: ex_decode)
  have r: "req_triple (ex_request False ''notes'' ex_note) \<notin> set (registry ex_store)" by simp
  have t: "req_triple (ex_request False ''notes'' ex_note) = (''p1'', ''o1'', ''notes'')"
    by (simp add: req_triple_def)
  show ?thesis
    using race_duplicate_registration[OF d ex_exists_req r, of "''POST''"] t
    by (simp add: race_start_def)
qed

subsection \<open>The invariant of interleaved runs\<close>

lemma grows_refl [simp]: "grows s s"
  by (simp add: grows_def)

lemma grows_trans: "grows s1 s2 \<Longrightarrow> grows s2 s3 \<Longrightarrow> grows s1 s3"
  by (auto simp: grows_def intro: prefix_order.trans)

lemma grows_CreateMongoDbDoc: "CreateMongoDbDoc c d s = Inr s' \<Longrightarrow> grows s s'"
  by (auto simp: CreateMongoDbDoc_def grows_def split: if_splits)

lemma grows_insertOne: "insertOne c d s = Inr s' \<Longrightarrow> grows s s'"
  by (auto simp: insertOne_def dest: grows_CreateMongoDbDoc split: option.splits sum.splits)

lemma grows_dispatch: "grows s (fst (dispatch m wdr s w))"
  by (auto simp: dispatch_def handlePost_def dest: grows_insertOne split: sum.splits)

lemma grows_createPluginCollectionRecord:
  "grows s (case createPluginCollectionRecord pid oid cn s of Inl _ \<Rightarrow> s | Inr s' \<Rightarrow> s')"
  by (auto simp: createPluginCollectionRecord_def dest: grows_CreateMongoDbDoc split: sum.splits)

lemma grows_req_step: "grows s (snd (req_step st s))"
  by (cases st) (simp_all add: grows_createPluginCollectionRecord grows_dispatch
      split: sum.splits prod.splits)

lemma recordExists_grows: "grows s s' \<Longrightarrow> recordExists c i s \<Longrightarrow> recordExists c i s'"
  by (auto simp: grows_def recordExists_def list_ex_iff dest: set_mono_prefix)

lemma registry_grows:
  assumes "grows s s'"
  shows "set (registry s) \<subseteq> set (registry s')"
proof -
  from assms obtain zs where "colls s' PluginCollectionsCollectionName = colls s PluginCollectionsCollectionName @ zs"
    by (auto simp: grows_def prefix_def)
  then show ?thesis by (auto simp: registry_def)
qed

lemma stage_ok_grows: "grows s s' \<Longrightarrow> stage_ok s st \<Longrightarrow> stage_ok s' st"
  by (cases st) (auto intro: recordExists_grows)

lemma req_step_ok:
  "stage_ok s st \<Longrightarrow> stage_ok (snd (req_step st s)) (fst (req_step st s))"
proof (cases st)
  case (CreateNs m wdr)
  moreover assume "stage_ok s st"
  moreover have "grows s (snd (req_step st s))"
    by (rule grows_req_step)
  ultimately show ?thesis by (auto intro: recordExists_grows)
next
qed (auto split: sum.splits)

lemma req_step_registry:
  "(pid, oid, cn) \<in> set (registry (snd (req_step st s))) \<Longrightarrow>
   (pid, oid, cn) \<in> set (registry s) \<or>
   (\<exists>m wdr. st = CreateNs m wdr \<and> (pid, oid, cn) = (PluginID wdr, OrganizationID wdr, CollectionName wdr))"
  by (cases st)
     (auto dest: registry_create split: sum.splits if_splits)

lemma req_step_registry_sound:
  assumes "registry_sound s" and "stage_ok s st"
  shows "registry_sound (snd (req_step st s))"
proof -
  let ?s' = "snd (req_step st s)"
  have g: "grows s ?s'" by (rule grows_req_step)
  show ?thesis
    unfolding registry_sound_def
  proof (intro ballI, clarify)
    fix pid oid cn
    assume "(pid, oid, cn) \<in> set (registry ?s')"
    then have "(pid, oid, cn) \<in> set (registry s) \<or>
      (\<exists>m wdr. st = CreateNs m wdr \<and> (pid, oid, cn) = (PluginID wdr, OrganizationID wdr, CollectionName wdr))"
      by (rule req_step_registry)
    then have "recordExists ''plugins'' pid s \<and> recordExists ''organization'' oid s"
      using assms by (auto simp: registry_sound_def)
    with g show "recordExists ''plugins'' pid ?s' \<and> recordExists ''organization'' oid ?s'"
      by (auto intro: recordExists_grows)
  qed
qed

lemma sys_step_inv:
  assumes "sys_step st st'" and "sys_inv st"
  shows "sys_inv st'"
  using assms(1)
proof (cases rule: sys_step.cases)
  case (step i rs s st_i s')
  from step(5) have s': "s' = snd (req_step (rs ! i) s)" and sti: "st_i = fst (req_step (rs ! i) s)"
    by simp_all
  from assms(2) step have rs: "list_all (stage_ok s) rs" and r: "registry_sound s"
    by (simp_all add: sys_inv_def)
  with step(3) have oki: "stage_ok s (rs ! i)" by (simp add: list_all_length)
  have g: "grows s s'" using s' by (simp add: grows_req_step)
  have "list_all (stage_ok s') (rs[i := st_i])"
    unfolding list_all_length
  proof (intro allI impI)
    fix n assume n: "n < length (rs[i := st_i])"
    show "stage_ok s' (rs[i := st_i] ! n)"
    proof (cases "n = i")
      case True
      with step(3) have "rs[i := st_i] ! n = st_i" by simp
      with oki s' sti show ?thesis by (simp add: req_step_ok)
    next
      case False
      with n rs g show ?thesis by (auto simp: list_all_length intro: stage_ok_grows)
    qed
  qed
  moreover have "registry_sound s'"
    using r oki s' by (simp add: req_step_registry_sound)
  ultimately show ?thesis using step by (simp add: sys_inv_def)
qed

lemma sys_steps_inv: "sys_steps st st' \<Longrightarrow> sys_inv st \<Longrightarrow> sys_inv st'"
  by (induction rule: rtranclp_induct) (auto intro: sys_step_inv)

lemma stage_ok_received: "is_received st \<Longrightarrow> stage_ok s st"
  by (cases st) simp_all

text \<open>
  C18: however the steps of any number of requests interleave, the registry stays
  sound: every record names a plugin and an organization that exist.
\<close>

theorem interleaving_registry_sound:
  assumes "sys_steps (s, rs) st'" and "registry_sound s" and "list_all is_received rs"
  shows "registry_sound (fst st')"
proof -
  have "list_all (stage_ok s) rs"
    using assms(3) by (auto simp: list_all_iff intro: stage_ok_received)
  with assms(2) have "sys_inv (s, rs)" by (simp add: sys_inv_def)
  with assms(1) have "sys_inv st'" by (rule sys_steps_inv)
  then show ?thesis by (simp add: sys_inv_def)
qed


theorem interleaving_registry_sound_witness:
  "sys_steps (ex_store, [Received ''POST'' (ex_body False ''notes'' ex_note), Received ''POST'' (ex_body False ''notes'' ex_note)])
     (run_schedule [0,1,0,1,0,1,0,1,0,1,0,1] race_start) \<and>
   registry_sound ex_store \<and>
   registry_sound (fst (run_schedule [0,1,0,1,0,1,0,1,0,1,0,1] race_start))"
proof -
  let ?rs = "[Received ''POST'' (ex_body False ''notes'' ex_note), Received ''POST'' (ex_body False ''notes'' ex_note)]"
  have st: "sys_steps (ex_store, ?rs) (run_schedule [0,1,0,1,0,1,0,1,0,1,0,1] race_start)"
    using run_schedule_steps[of race_start] by (simp add: race_start_def)
  have r: "registry_sound ex_store" by (simp add: registry_sound_def)
  have l: "list_all is_received ?rs" by simp
  from interleaving_registry_sound[OF st r l] st r show ?thesis by simp
qed


subsection \<open>System collections under interleaving\<close>

lemma req_step_system_frame:
  assumes "c \<in> set system_collections" and "c \<noteq> PluginCollectionsCollectionName"
  shows "colls (snd (req_step st s)) c = colls s c"
proof (cases st)
  case (CreateNs m wdr)
  with assms(2) show ?thesis
    by (auto simp: createPluginCollectionRecord_def dest: CreateMongoDbDoc_frame split: sum.splits)
next
  case (Dispatch m wdr)
  from assms(1) prefixCollectionName_not_system have "c \<noteq> prefixCollectionName wdr" by auto
  with Dispatch show ?thesis by (simp add: dispatch_frame)
qed (simp_all split: sum.splits)

lemma sys_step_system_frame:
  "sys_step st st' \<Longrightarrow> c \<in> set system_collections \<Longrightarrow> c \<noteq> PluginCollectionsCollectionName \<Longrightarrow>
   colls (fst st') c = colls (fst st) c"
proof (induction rule: sys_step.induct)
  case (step i rs s st' s')
  with req_step_system_frame[of c "rs ! i" s] show ?case by simp
qed

end
