(* ===== verification/Realtime.thy ===== *)
theory Realtime
  imports Http Store
begin

text \<open>
  The Centrifugo handlers of \<open>src/realtime/realtime.go\<close>.  \<open>Auth\<close> answers a
  Centrifugo connect proxy request, \<open>Refresh\<close> a refresh request, and
  \<open>PublishEvent\<close> publishes an event.  Their collaborators outside \<open>src/\<close> are
  parameters: \<open>get_session\<close> is \<open>auth.GetSessionDataFromToken\<close> (its session
  type is the type variable \<open>'sess\<close>), \<open>parse\<close>, \<open>validate\<close> and \<open>emit\<close> are
  \<open>utils.ParseJsonFromRequest\<close>, \<open>validate.Struct\<close> and \<open>utils.Emitter\<close>
  (the emitter acts on an abstract world \<open>'w\<close>), and the configuration is a
  record passed in.  A Go panic is the outcome \<open>Panicked\<close>: \<open>net/http\<close>
  recovers it and aborts the connection.  The lemmas show that \<open>Auth\<close> keeps
  writing after a not-authenticated answer (no \<open>return\<close>), that
  \<open>CentifugoConnectAuth\<close> turns a session lookup error into success with an
  empty user (so a session store outage admits every valid token), that
  \<open>UserIDFromSession\<close> ignores the session it is given, and which events
  \<open>PublishEvent\<close> emits.
\<close>

section \<open>Requests, configuration, outcomes\<close>

record http_request =
  req_header :: "(string \<times> string) list"
  req_body :: "json option"

record config =
  HmacSampleSecret :: string
  SessionDbCollection :: string

datatype 'a outcome = Returned 'a | Panicked

section \<open>Wire formats\<close>

text \<open>\<open>CentrifugoConnectRequest\<close>: four string fields.\<close>

definition CentrifugoConnectRequest_fields :: "(string \<times> field_kind) list" where
  "CentrifugoConnectRequest_fields =
     [(''client'', KString), (''transport'', KString), (''protocol'', KString), (''encoding'', KString)]"

text \<open>\<open>CentrifugoConnectResponse{Result: CentrifugoConnectResult{User: u}}\<close> as JSON.\<close>

definition CentrifugoConnectResponse :: "string \<Rightarrow> json" where
  "CentrifugoConnectResponse user = JObj [(''result'', JObj [(''user'', JStr user)])]"

text \<open>\<open>CentrifugoRefreshResponse{Result: CentrifugoRefreshResult{ExpireAt: e}}\<close>.\<close>

definition CentrifugoRefreshResponse :: "string \<Rightarrow> json" where
  "CentrifugoRefreshResponse expire = JObj [(''result'', JObj [(''expire_at'', JStr expire)])]"

section \<open>Handlers\<close>

definition CentrifugoNotAuthenticatedResponse :: "response \<Rightarrow> response" where
  "CentrifugoNotAuthenticatedResponse w =
     encode_json (CentrifugoConnectResponse [])
       (WriteHeader 201 (set_header ''Content-Type'' ''application/json'' w))"

definition ExtractHeaderToken :: "http_request \<Rightarrow> string" where
  "ExtractHeaderToken r = header_get ''Authorization'' (req_header r)"

text \<open>
  \<open>UserIDFromSession\<close>: \<open>mapstructure.Decode(sessionData, data)\<close> is handed the
  nil map \<open>data\<close> by value, so it fails (the error is ignored) and \<open>data\<close>
  stays nil: the session lookup runs with the empty filter.  The type assertion
  \<open>session["user_id"].(string)\<close> panics when the field is missing or not a string.
\<close>

definition UserIDFromSession :: "'sess \<Rightarrow> config \<Rightarrow> store \<Rightarrow> (string \<times> string option) outcome" where
  "UserIDFromSession sessionData conf s =
     (let data = ([] :: doc) in
      case GetMongoDbDoc (SessionDbCollection conf) data s of
        Inl e \<Rightarrow> Returned ([], Some (store_error_msg e))
      | Inr session \<Rightarrow>
          (case map_of session ''user_id'' of
             Some (JStr u) \<Rightarrow> Returned (u, None)
           | _ \<Rightarrow> Panicked))"

definition CentifugoConnectAuth ::
  "(http_request \<Rightarrow> string \<Rightarrow> bool \<times> string option \<times> 'sess) \<Rightarrow> config \<Rightarrow> http_request \<Rightarrow> store \<Rightarrow>
   (string \<times> string option) outcome" where
  "CentifugoConnectAuth get_session conf r s =
     (case get_session r (HmacSampleSecret conf) of
        (status, err, sessionData) \<Rightarrow>
          if status then
            (case UserIDFromSession sessionData conf s of
               Panicked \<Rightarrow> Panicked
             | Returned (userID, e) \<Rightarrow>
                 if e \<noteq> None then Returned ([], None) else Returned (userID, None))
          else Returned ([], err))"

definition Auth ::
  "(http_request \<Rightarrow> string \<Rightarrow> bool \<times> string option \<times> 'sess) \<Rightarrow> config \<Rightarrow> http_request \<Rightarrow> store \<Rightarrow>
   response outcome" where
  "Auth get_session conf r s =
     (case decode_struct ''realtime.CentrifugoConnectRequest'' CentrifugoConnectRequest_fields (req_body r) of
        Inl e \<Rightarrow> Returned (http_Error (json_error_msg e) 400 empty_response)
      | Inr _ \<Rightarrow>
          (let headerToken = ExtractHeaderToken r;
               w1 = (if headerToken = [] then CentrifugoNotAuthenticatedResponse empty_response
                     else empty_response)
           in case CentifugoConnectAuth get_session conf r s of
                Panicked \<Rightarrow> Panicked
              | Returned (userID, err) \<Rightarrow>
                  (let w2 = (if err \<noteq> None then CentrifugoNotAuthenticatedResponse w1 else w1)
                   in Returned (encode_json (CentrifugoConnectResponse userID)
                                 (WriteHeader 200 (set_header ''Content-Type'' ''application/json'' w2))))))"

definition Refresh :: "response \<Rightarrow> response" where
  "Refresh w =
     encode_json (CentrifugoRefreshResponse [])
       (WriteHeader 201 (set_header ''Content-Type'' ''application/json'' w))"

text \<open>\<open>Test\<close> serves a page named relative to the process's working directory.\<close>

definition Test :: "string \<Rightarrow> (string \<Rightarrow> string option) \<Rightarrow> response \<Rightarrow> response" where
  "Test urlPath fs w = ServeFile urlPath fs ''./realtime/test_rtc.html'' w"

definition PublishEvent ::
  "('req \<Rightarrow> string + 'ev) \<Rightarrow> ('ev \<Rightarrow> string option) \<Rightarrow> ('ev \<Rightarrow> 'w \<Rightarrow> json \<times> 'w) \<Rightarrow>
   'req \<Rightarrow> 'w \<Rightarrow> response \<times> 'w" where
  "PublishEvent parse validate emit r world =
     (let w = set_header ''Content-Type'' ''application/json'' empty_response in
      case parse r of
        Inl err \<Rightarrow> (GetError err 422 w, world)
      | Inr event \<Rightarrow>
          (case validate event of
             Some err \<Rightarrow> (GetError err 400 w, world)
           | None \<Rightarrow>
               (case emit event world of
                  (res, world') \<Rightarrow> (GetSuccess ''publish event status'' res w, world'))))"

text \<open>
  The writer calls of \<open>CentrifugoNotAuthenticatedResponse\<close> (lines 113--115) as a
  sequence of \<open>wop\<close>s.
\<close>

definition not_auth_ops :: "wop list" where
  "not_auth_ops = [OpSetHeader ''Content-Type'' ''application/json'', OpWriteHeader 201,
                   OpWrite (JsonChunk (CentrifugoConnectResponse []))]"

section \<open>Examples\<close>

text \<open>
  A session collection whose first document is Alice's session and whose second is
  Bob's; a token check that accepts any non-empty \<open>Authorization\<close> header as Bob's
  session.
\<close>

definition ex_sessions :: store where
  "ex_sessions = \<lparr>colls = (\<lambda>c. if c = ''sessions'' then
       [[(''_id'', JStr ''s-alice''), (''user_id'', JStr ''alice'')],
        [(''_id'', JStr ''s-bob''), (''user_id'', JStr ''bob'')]] else []),
     online = True\<rparr>"

definition ex_conf :: config where
  "ex_conf = \<lparr>HmacSampleSecret = ''secret'', SessionDbCollection = ''sessions''\<rparr>"

definition ex_token_session :: "http_request \<Rightarrow> string \<Rightarrow> bool \<times> string option \<times> string" where
  "ex_token_session r key = (if header_get ''Authorization'' (req_header r) = [] then (False, Some ''token missing'', [])
                             else (True, None, ''s-bob''))"

definition ex_bob_request :: http_request where
  "ex_bob_request = \<lparr>req_header = [(''Authorization'', ''bob-token'')], req_body = Some (JObj [])\<rparr>"

section \<open>Lemmas\<close>

lemma NotAuth_wops:
  "CentrifugoNotAuthenticatedResponse w =
     run_wops w [OpSetHeader ''Content-Type'' ''application/json'', OpWriteHeader 201,
                 OpWrite (JsonChunk (CentrifugoConnectResponse []))]"
  by (simp add: CentrifugoNotAuthenticatedResponse_def run_wops_def encode_json_def)

lemma Auth_wops:
  assumes "decode_struct ''realtime.CentrifugoConnectRequest'' CentrifugoConnectRequest_fields (req_body r) = Inr a"
    and "CentifugoConnectAuth get_session conf r s = Returned (userID, err)"
  shows "Auth get_session conf r s =
     Returned (run_wops empty_response
       ((if ExtractHeaderToken r = [] then not_auth_ops else []) @
        (if err \<noteq> None then not_auth_ops else []) @
        [OpSetHeader ''Content-Type'' ''application/json'', OpWriteHeader 200,
         OpWrite (JsonChunk (CentrifugoConnectResponse userID))]))"
  using assms
  by (simp add: Auth_def Let_def NotAuth_wops not_auth_ops_def run_wops_append[symmetric])
     (simp add: run_wops_def encode_json_def)

lemma Auth_authenticated:
  assumes "decode_struct ''realtime.CentrifugoConnectRequest'' CentrifugoConnectRequest_fields (req_body r) = Inr a"
    and "ExtractHeaderToken r \<noteq> []"
    and "CentifugoConnectAuth get_session conf r s = Returned (u, None)"
  shows "\<exists>w. Auth get_session conf r s = Returned w \<and> final_status w = 200 \<and>
             resp_body w = [JsonChunk (CentrifugoConnectResponse u)]"
  using Auth_wops[OF assms(1,3)] assms(2)
  by (simp add: run_wops_def encode_json_def resp_status_Write final_status_def WriteHeader_def
      set_header_def empty_response_def Write_def)

lemma ex_bob_decode:
  "decode_struct ''realtime.CentrifugoConnectRequest'' CentrifugoConnectRequest_fields (req_body ex_bob_request) = Inr []"
  by (simp add: ex_bob_request_def)

lemma ex_bob_token: "ExtractHeaderToken ex_bob_request \<noteq> []"
  by (simp add: ExtractHeaderToken_def header_get_def ex_bob_request_def)

lemma ex_bob_session: "ex_token_session ex_bob_request (HmacSampleSecret ex_conf) = (True, None, ''s-bob'')"
  by (simp add: ex_token_session_def ex_bob_request_def header_get_def)

text \<open>C19: when the connect request decodes, Auth answers with one not-authenticated JSON value (status 201) for an empty Authorization header and one more when CentifugoConnectAuth reports an error, and then, since neither branch returns, it still writes the connect response with the user id: the status is 201 whenever either check failed and 200 otherwise.\<close>

theorem Auth_response:
  assumes "decode_struct ''realtime.CentrifugoConnectRequest'' CentrifugoConnectRequest_fields (req_body r) = Inr a"
    and "CentifugoConnectAuth get_session conf r s = Returned (userID, err)"
  shows "\<exists>w. Auth get_session conf r s = Returned w \<and>
     final_status w = (if ExtractHeaderToken r = [] \<or> err \<noteq> None then 201 else 200) \<and>
     resp_body w =
       replicate ((if ExtractHeaderToken r = [] then 1 else 0) + (if err \<noteq> None then 1 else 0))
         (JsonChunk (CentrifugoConnectResponse [])) @
       [JsonChunk (CentrifugoConnectResponse userID)]"
proof -
  let ?ops = "(if ExtractHeaderToken r = [] then not_auth_ops else []) @
        (if err \<noteq> None then not_auth_ops else []) @
        [OpSetHeader ''Content-Type'' ''application/json'', OpWriteHeader 200,
         OpWrite (JsonChunk (CentrifugoConnectResponse userID))]"
  have a: "Auth get_session conf r s = Returned (run_wops empty_response ?ops)"
    using assms by (rule Auth_wops)
  have "final_status (run_wops empty_response ?ops) = first_status ?ops"
    by (simp add: run_wops_status)
  moreover have "first_status ?ops = (if ExtractHeaderToken r = [] \<or> err \<noteq> None then 201 else 200)"
    by (simp add: not_auth_ops_def)
  moreover have "resp_body (run_wops empty_response ?ops) = written ?ops"
    by (simp add: run_wops_body)
  moreover have "written ?ops =
       replicate ((if ExtractHeaderToken r = [] then 1 else 0) + (if err \<noteq> None then 1 else 0))
         (JsonChunk (CentrifugoConnectResponse [])) @ [JsonChunk (CentrifugoConnectResponse userID)]"
    by (simp add: not_auth_ops_def numeral_eq_Suc)
  ultimately show ?thesis using a by simp
qed

text \<open>C21: when the token is valid but the user lookup fails, CentifugoConnectAuth returns the empty user id and no error.\<close>

theorem CentifugoConnectAuth_swallows_error:
  assumes "get_session r (HmacSampleSecret conf) = (True, e, sessionData)"
    and "UserIDFromSession sessionData conf s = Returned (u, Some msg)"
  shows "CentifugoConnectAuth get_session conf r s = Returned ([], None)"
  using assms by (simp add: CentifugoConnectAuth_def)

text \<open>C22: UserIDFromSession ignores the session it is given: with the store online it returns the user_id of the first session document, and panics when that field is missing or not a string.\<close>

theorem UserIDFromSession_first_session:
  assumes "online s" and "colls s (SessionDbCollection conf) = d # ds"
  shows "UserIDFromSession sessionData conf s =
           (case map_of d ''user_id'' of Some (JStr u) \<Rightarrow> Returned (u, None) | _ \<Rightarrow> Panicked)"
  using assms by (simp add: UserIDFromSession_def GetMongoDbDoc_def)

text \<open>C20: a request with a non-empty token whose session check succeeds is answered 200 with the user id of the first document of the session collection, whatever session the token belongs to.\<close>

theorem Auth_first_session_user:
  assumes "decode_struct ''realtime.CentrifugoConnectRequest'' CentrifugoConnectRequest_fields (req_body r) = Inr a"
    and "ExtractHeaderToken r \<noteq> []"
    and "get_session r (HmacSampleSecret conf) = (True, e, sessionData)"
    and "online s" and "colls s (SessionDbCollection conf) = d # ds" and "map_of d ''user_id'' = Some (JStr u)"
  shows "\<exists>w. Auth get_session conf r s = Returned w \<and> final_status w = 200 \<and>
             resp_body w = [JsonChunk (CentrifugoConnectResponse u)]"
proof -
  have "CentifugoConnectAuth get_session conf r s = Returned (u, None)"
    using assms(3-6) by (simp add: CentifugoConnectAuth_def UserIDFromSession_def GetMongoDbDoc_def)
  with assms(1,2) show ?thesis by (rule Auth_authenticated)
qed

text \<open>C23: a connect request that does not decode is answered 400 with the decoding error as plain text.\<close>

theorem Auth_decode_error:
  assumes "decode_struct ''realtime.CentrifugoConnectRequest'' CentrifugoConnectRequest_fields (req_body r) = Inl e"
  shows "\<exists>w. Auth get_session conf r s = Returned w \<and> final_status w = 400 \<and>
             resp_body w = [TextChunk (json_error_msg e @ [CHR 0x0A])] \<and>
             map_of (sent_header w) ''Content-Type'' = Some ''text/plain; charset=utf-8''"
  using assms
  by (simp add: Auth_def http_Error_def Write_def final_status_def WriteHeader_def
      set_header_def empty_response_def)

lemma CentifugoConnectAuth_swallows_error_witness:
  "CentifugoConnectAuth ex_token_session ex_conf ex_bob_request (ex_sessions\<lparr>online := False\<rparr>) = Returned ([], None)"
proof -
  have u: "UserIDFromSession ''s-bob'' ex_conf (ex_sessions\<lparr>online := False\<rparr>) =
             Returned ([], Some (store_error_msg StoreUnavailable))"
    by (simp add: UserIDFromSession_def GetMongoDbDoc_def ex_sessions_def)
  show ?thesis by (rule CentifugoConnectAuth_swallows_error[where get_session = ex_token_session and r = ex_bob_request, OF ex_bob_session u])
qed

lemma UserIDFromSession_first_session_witness:
  "UserIDFromSession ''s-bob'' ex_conf ex_sessions = Returned (''alice'', None)"
proof -
  have o: "online ex_sessions" by (simp add: ex_sessions_def)
  have c: "colls ex_sessions (SessionDbCollection ex_conf) =
     [(''_id'', JStr ''s-alice''), (''user_id'', JStr ''alice'')] #
     [[(''_id'', JStr ''s-bob''), (''user_id'', JStr ''bob'')]]"
    by (simp add: ex_sessions_def ex_conf_def)
  show ?thesis using UserIDFromSession_first_session[OF o c, of "''s-bob''"] by simp
qed

lemma Auth_response_witness:
  "\<exists>w. Auth ex_token_session ex_conf \<lparr>req_header = [], req_body = Some (JObj [])\<rparr> ex_sessions = Returned w \<and>
       final_status w = 201 \<and> length (resp_body w) = 3"
proof -
  let ?r = "\<lparr>req_header = [], req_body = Some (JObj [])\<rparr>"
  have d: "decode_struct ''realtime.CentrifugoConnectRequest'' CentrifugoConnectRequest_fields (req_body ?r) = Inr []"
    by simp
  have c: "CentifugoConnectAuth ex_token_session ex_conf ?r ex_sessions = Returned ([], Some ''token missing'')"
    by (simp add: CentifugoConnectAuth_def ex_token_session_def header_get_def)
  have t: "ExtractHeaderToken ?r = []"
    by (simp add: ExtractHeaderToken_def header_get_def)
  show ?thesis using Auth_response[OF d c] t by auto
qed

lemma Auth_first_session_user_witness:
  "\<exists>w. Auth ex_token_session ex_conf ex_bob_request ex_sessions = Returned w \<and>
       final_status w = 200 \<and> resp_body w = [JsonChunk (CentrifugoConnectResponse ''alice'')]"
proof -
  have o: "online ex_sessions" by (simp add: ex_sessions_def)
  have c: "colls ex_sessions (SessionDbCollection ex_conf) =
     [(''_id'', JStr ''s-alice''), (''user_id'', JStr ''alice'')] #
     [[(''_id'', JStr ''s-bob''), (''user_id'', JStr ''bob'')]]"
    by (simp add: ex_sessions_def ex_conf_def)
  have u: "map_of [(''_id'', JStr ''s-alice''), (''user_id'', JStr ''alice'')] ''user_id'' = Some (JStr ''alice'')"
    by simp
  show ?thesis by (rule Auth_first_session_user[where get_session = ex_token_session and r = ex_bob_request, OF ex_bob_decode ex_bob_token ex_bob_session o c u])
qed

lemma Auth_decode_error_witness:
  "\<exists>w. Auth ex_token_session ex_conf \<lparr>req_header = [], req_body = None\<rparr> ex_sessions = Returned w \<and>
       final_status w = 400"
proof -
  have d: "decode_struct ''realtime.CentrifugoConnectRequest'' CentrifugoConnectRequest_fields
             (req_body \<lparr>req_header = [], req_body = None\<rparr>) = Inl EndOfInput" by simp
  show ?thesis using Auth_decode_error[OF d, of ex_token_session ex_conf ex_sessions] by blast
qed

text \<open>
  C24: \<open>PublishEvent\<close> runs the emitter exactly when the event parses and passes
  validation, and only then changes the world; it answers 422 for an event that
  does not parse, 400 for one that fails validation and 200 otherwise, always
  with one JSON value.
\<close>

theorem PublishEvent_contract:
  "snd (PublishEvent parse validate emit r world) =
     (case parse r of Inl _ \<Rightarrow> world
      | Inr event \<Rightarrow> (case validate event of Some _ \<Rightarrow> world | None \<Rightarrow> snd (emit event world))) \<and>
   final_status (fst (PublishEvent parse validate emit r world)) =
     (case parse r of Inl _ \<Rightarrow> 422
      | Inr event \<Rightarrow> (case validate event of Some _ \<Rightarrow> 400 | None \<Rightarrow> 200)) \<and>
   length (resp_body (fst (PublishEvent parse validate emit r world))) = 1"
  by (simp add: PublishEvent_def split: sum.splits option.splits prod.splits)

text \<open>
  C26: when the session store does not answer or holds no session, every request
  with a non-empty token that the token check accepts is answered 200 with the
  empty user id: \<open>UserIDFromSession\<close>'s error is swallowed by
  \<open>CentifugoConnectAuth\<close> (line 131), so a store outage admits every valid token
  as the empty user.
\<close>

theorem Auth_session_store_unusable:
  assumes "decode_struct ''realtime.CentrifugoConnectRequest'' CentrifugoConnectRequest_fields (req_body r) = Inr a"
    and "ExtractHeaderToken r \<noteq> []"
    and "get_session r (HmacSampleSecret conf) = (True, e, sessionData)"
    and "\<not> online s \<or> colls s (SessionDbCollection conf) = []"
  shows "\<exists>w. Auth get_session conf r s = Returned w \<and> final_status w = 200 \<and>
             resp_body w = [JsonChunk (CentrifugoConnectResponse [])]"
proof -
  from GetMongoDbDoc_none[OF assms(4)] obtain err where
    "GetMongoDbDoc (SessionDbCollection conf) [] s = Inl err" by blast
  then have "CentifugoConnectAuth get_session conf r s = Returned ([], None)"
    using assms(3) by (simp add: CentifugoConnectAuth_def UserIDFromSession_def)
  with assms(1,2) show ?thesis by (rule Auth_authenticated)
qed

theorem Auth_session_store_unusable_witness:
  "\<exists>w. Auth ex_token_session ex_conf ex_bob_request (ex_sessions\<lparr>online := False\<rparr>) = Returned w \<and>
       final_status w = 200 \<and> resp_body w = [JsonChunk (CentrifugoConnectResponse [])]"
proof -
  have o: "\<not> online (ex_sessions\<lparr>online := False\<rparr>) \<or> colls (ex_sessions\<lparr>online := False\<rparr>) (SessionDbCollection ex_conf) = []"
    by simp
  show ?thesis
    by (rule Auth_session_store_unusable[where get_session = ex_token_session and r = ex_bob_request, OF ex_bob_decode ex_bob_token ex_bob_session o])
qed

end
