(* ===== verification/Spec2Isabelle.thy ===== *)
theory Spec2Isabelle
  imports Concurrency Realtime
begin

text \<open>
  \<^bold>\<open>A verification development of zc\_core's write-data gateway and realtime handlers.\<close>

  \<^bold>\<open>The program.\<close>  \<open>src/data/write_data.go\<close> is an HTTP handler through which
  plugins store JSON documents.  \<open>WriteData\<close> decodes a \<open>writeDataRequest\<close>,
  checks that the plugin (collection \<open>plugins\<close>) and the organization
  (collection \<open>organization\<close>) exist, registers the (plugin, organization,
  collection) triple in \<open>plugin_collections\<close> if it is new, and dispatches on the
  HTTP method to \<open>handlePost\<close>, \<open>handlePut\<close> or \<open>handleDelete\<close>, which write
  to the physical collection \<open>prefixCollectionName\<close> through the helpers
  \<open>insertOne\<close>, \<open>insertMany\<close>, \<open>updateOne\<close>, \<open>updateMany\<close>.
  \<open>src/models/models.go\<close> names the system collections.
  \<open>src/realtime/realtime.go\<close> holds the Centrifugo connect, refresh and publish
  handlers.  Request decoding (\<open>encoding/json\<close>), the response writer
  (\<open>net/http\<close>), the store helpers of \<open>utils\<close> and the \<open>data\<close> package's
  \<open>recordExists\<close>, \<open>pluginHasCollection\<close>, \<open>createPluginCollectionRecord\<close> and
  \<open>getPrefixedCollectionName\<close> are outside \<open>src/\<close>; they are modelled from the
  spec and from Go's documented semantics.

  \<^bold>\<open>Theories.\<close>
  \<^item> \<open>Prelude\<close>: rule collections, ASCII case folding, separator and
    association-list lemmas.
  \<^item> \<open>Json\<close>: JSON values, Go's decoding into \<open>interface{}\<close> (\<open>decode_any\<close>)
    and into a struct (\<open>decode_struct\<close>: exact then case-folded tag match, the
    first type error reported with Go's message, \<open>null\<close> a no-op on scalars and
    the zero value in a \<open>[]string\<close>), the type assertions \<open>as_array\<close> and
    \<open>as_object\<close>.
  \<^item> \<open>Http\<close>: the response writer (status fixed by the first \<open>WriteHeader\<close>,
    implicit 200 on \<open>Write\<close>), \<open>http.Error\<close>, \<open>Header.Get\<close>, \<open>utils.GetError\<close>
    and \<open>utils.GetSuccess\<close>; \<open>run_wops\<close> and its refinement lemmas
    (\<open>run_wops_status\<close>, \<open>run_wops_body\<close>); \<open>http.ServeFile\<close> for a regular
    file (\<open>ServeFile\<close>, \<open>containsDotDot\<close>, \<open>mime_by_ext\<close>).
  \<^item> \<open>Store\<close>: the document store as a map from collection names to document
    lists with an \<open>online\<close> flag; \<open>recordExists\<close>, \<open>CreateMongoDbDoc\<close>,
    \<open>GetMongoDbDoc\<close>.
  \<^item> \<open>Models\<close>: the constants of \<open>models.go\<close> and \<open>system_collections\<close> (those
    constants and the \<open>organization\<close> literal of \<open>write_data.go\<close> line 35).
  \<^item> \<open>Namespace\<close>: \<open>getPrefixedCollectionName\<close>, registry records,
    \<open>register_if_absent\<close> (lines 42--45 of \<open>WriteData\<close>), the abstraction
    \<open>registry\<close> to a list of triples, the claim that repeated registration leaves
    one record (C8), and the abstract specification of the layer: the namespaced
    store \<open>ns_abs\<close> (a document list per triple and the set of registered
    triples) with its operation \<open>ns_post\<close>.
  \<^item> \<open>WriteData\<close>: the request record and its decoding, every function of
    \<open>write_data.go\<close> under its own name, and the claims C1--C7, C9--C16, C25 and
    C27.
  \<^item> \<open>Concurrency\<close>: \<open>WriteData\<close> split at its store accesses into stages
    (\<open>req_step\<close>), and the inductive step relation \<open>sys_step\<close> in which any
    unfinished request of a list advances on the shared store (C17, C18).
  \<^item> \<open>Realtime\<close>: the Centrifugo handlers of \<open>realtime.go\<close> (\<open>Auth\<close>,
    \<open>Refresh\<close>, \<open>PublishEvent\<close>), their helpers
    (\<open>CentrifugoNotAuthenticatedResponse\<close>, \<open>CentifugoConnectAuth\<close>,
    \<open>ExtractHeaderToken\<close>, \<open>UserIDFromSession\<close>) and \<open>Test\<close>, with claims
    C19--C24 and C26.
  \<^item> \<open>Spec2Isabelle\<close> (this theory): the property of interleaved runs that rests
    on every component at once (C28).

  \<^bold>\<open>State and effects.\<close>  A handler is a function from the store and the response
  written so far to the new store and response; a Go error is a value of a sum
  type (\<open>write_error\<close>, \<open>store_error\<close>, \<open>json_error\<close>), a Go panic the outcome
  \<open>Panicked\<close>.  Store failures are modelled by \<open>online\<close>: when the backend does
  not answer, writes fail and \<open>recordExists\<close> is false; a store that answers
  never fails a single call, so the 500 of a failed insert is not reached from
  \<open>WriteData\<close>.  The collaborators of \<open>realtime.go\<close> outside \<open>src/\<close> (the
  token check of the \<open>auth\<close> package, the event parser, validator and emitter
  of \<open>utils\<close>) are parameters of the handlers, so every claim about them holds
  for every such collaborator.  No handler loops, so no fuel is needed;
  concurrent runs are arbitrary finite sequences of \<open>sys_step\<close>, with no
  fairness assumed.

  \<^bold>\<open>Assumptions on code outside src/.\<close>  The spec only asks for a stable,
  deterministic prefixing scheme for physical collection names; the model takes
  the three key fields joined by underscores (\<open>getPrefixedCollectionName\<close>).
  C5, C15, C25 and C28 rest on that format: C15 and C25 need plugin and
  organization ids without underscores, and C5 and C28 need that such a name
  is never a system collection name.  \<open>recordExists\<close> looks the id up as a
  string \<open>_id\<close>.

  \<^bold>\<open>What is proved.\<close>  Error paths (C1, C2, C14) leave the store unchanged and
  answer 404 or 422; a single POST registers the triple and appends the payload
  to its physical collection (C3) and, seen through the abstract namespaced store,
  changes its own triple only (C25); a request changes no collection but its own
  and the registry (C4), never a system collection (C5); the registry keeps no
  duplicate (C6) and only names existing plugins and organizations (C7);
  registration is idempotent (C8); the stubs are what the source says (C9--C13,
  C16); physical names are injective when ids have no underscore (C15);
  \<open>WriteData\<close> answers only the status codes 200, 201, 400, 404, 422 and 500
  with at most one value in the body (C27).  Under concurrency, for every store
  and every unregistered triple, two identical requests whose steps alternate
  both register their triple (C17), while every interleaving keeps the registry
  sound (C18) and leaves every system collection but the registry unchanged
  (C28).  For the realtime handlers: \<open>Auth\<close> keeps writing after a
  not-authenticated answer, so the status is 201 and the body holds up to three
  JSON values (C19); any valid token is answered with the user of the first
  session document (C20, C22); a failed user lookup becomes success with an
  empty user (C21), so a session store that is down or empty admits every
  valid token as the empty user (C26); decode errors answer 400 (C23);
  \<open>PublishEvent\<close> emits exactly the events that parse and validate and answers
  422, 400 or 200 accordingly (C24).

  \<^bold>\<open>Not modelled.\<close>  Every function of the three source files is modelled;
  what remains lies outside \<open>src/\<close> or has no effect on responses or the store.
  Logging (\<open>fmt.Println\<close>) only writes to the process log.  Of
  \<open>http.ServeFile\<close>, Range and conditional requests, \<open>HEAD\<close>, directories and
  content sniffing are not modelled: \<open>Test\<close> serves one fixed \<open>.html\<close> file.
  Configuration loading (\<open>utils.NewConfigurations\<close>, environment variables) is
  replaced by the \<open>config\<close> record; the token validation of the \<open>auth\<close>
  package, \<open>utils.ParseJsonFromRequest\<close> and \<open>utils.Emitter\<close> are parameters,
  since their code is not in the repository and every claim holds for any of
  them.  The store adapter stays partly modelled: its update and delete
  primitives are never called by the source (the update and delete handlers are
  stubs), and per-call failures of a store that answers (duplicate \<open>_id\<close>,
  timeouts) are not modelled.  JSON syntax errors and non-integer numbers,
  cancellation of concurrent requests, and Unicode case folding beyond ASCII are
  not modelled.
\<close>

section \<open>Properties across components\<close>

text \<open>
  C28: however the steps of concurrent requests interleave, no system collection of
  \<open>models.go\<close> other than the registry \<open>plugin_collections\<close> ever changes: the
  physical collections requests write to are never system collections
  (\<open>Namespace\<close>), registration writes only the registry, and each stage of
  \<open>WriteData\<close> keeps that frame (\<open>Concurrency\<close>).
\<close>

theorem interleaving_system_collections:
  assumes "sys_steps st st'" and "c \<in> set system_collections" and "c \<noteq> PluginCollectionsCollectionName"
  shows "colls (fst st') c = colls (fst st) c"
  using assms(1)
proof (induction rule: rtranclp_induct)
  case (step st1 st2)
  with sys_step_system_frame[OF step.hyps(2) assms(2,3)] show ?case by simp
qed simp

theorem interleaving_system_collections_witness:
  "colls (fst (run_schedule [0, 1, 0, 1, 0, 1] race_start)) UserCollectionName =
   colls (fst race_start) UserCollectionName"
proof -
  have "UserCollectionName \<in> set system_collections" by (simp add: system_collections_def)
  moreover have "UserCollectionName \<noteq> PluginCollectionsCollectionName" by (simp add: collection_name_defs)
  ultimately show ?thesis by (rule interleaving_system_collections[OF run_schedule_steps])
qed

end
